theory Spec2Isabelle
  imports Main "HOL-Library.Word"
begin

section \<open>The application form of \<^verbatim>\<open>src/App.tsx\<close>\<close>

text \<open>
  The repository is one React component, \<^verbatim>\<open>App\<close>. Its state hooks become a
  record, each event handler becomes a function from state to state, the remote
  contact API and the browser's location are two more fields of that record, and every
  \<^verbatim>\<open>throw\<close> is a value of a sum type. The markup, the console output, the calls of
  \<^verbatim>\<open>preventDefault\<close> and \<^verbatim>\<open>stopPropagation\<close>, and the set-up of the API client
  with its key are left out: no state of the component depends on them.
\<close>

subsection \<open>Strings\<close>

text \<open>
  A JavaScript string is a sequence of 16-bit code units. \<open>str\<close> embeds an ASCII
  literal of the source; the pound sign of the amount table is the code unit U+00A3.
\<close>

type_synonym jsstring = "16 word list"

definition str :: "string \<Rightarrow> jsstring" where
  "str cs = map of_char cs"

definition pound :: "16 word" where
  "pound = 0xA3"

text \<open>\<^verbatim>\<open>s.includes(c)\<close> for a needle of one code unit, as in \<^verbatim>\<open>includes('@')\<close>.\<close>

definition includes_unit :: "jsstring \<Rightarrow> 16 word \<Rightarrow> bool" where
  "includes_unit s c = (c \<in> set s)"

text \<open>
  Surrogates: a lead and a trail code unit in a row write one code point above U+FFFF.
  \<open>code_points\<close> reads a string as the language does, a surrogate outside a pair being
  a code point of its own; \<open>utf16\<close> writes a code point back.
\<close>

definition isLead :: "16 word \<Rightarrow> bool" where
  "isLead c = (0xD800 \<le> c \<and> c \<le> 0xDBFF)"

definition isTrail :: "16 word \<Rightarrow> bool" where
  "isTrail c = (0xDC00 \<le> c \<and> c \<le> 0xDFFF)"

definition codepoint :: "16 word \<Rightarrow> 16 word \<Rightarrow> nat" where
  "codepoint lead trail = 0x10000 + (unat lead - 0xD800) * 0x400 + (unat trail - 0xDC00)"

fun code_points :: "jsstring \<Rightarrow> nat list" where
  "code_points [] = []"
| "code_points [c] = [unat c]"
| "code_points (c # d # cs) =
     (if isLead c \<and> isTrail d then codepoint c d # code_points cs
      else unat c # code_points (d # cs))"

definition utf16 :: "nat \<Rightarrow> jsstring" where
  "utf16 cp =
     (if cp < 0x10000 then [of_nat cp]
      else [of_nat (0xD800 + (cp - 0x10000) div 0x400),
            of_nat (0xDC00 + (cp - 0x10000) mod 0x400)])"

text \<open>
  \<^verbatim>\<open>s.toLowerCase()\<close> is the lower case conversion of the Unicode standard, code
  point by code point, without a locale. Its tables belong to the platform; they are
  written out here as version 14.0 of the standard has them (later versions add letters).
  \<open>lower_table\<close> holds the letters that have another lower case form, in runs: first
  and last code point of the run, the step between its members, and the lower case form
  of the first; a member \<open>cp\<close> becomes that form plus \<open>cp - first\<close>. \<open>case_ignorable\<close>
  are the ranges of the characters that the rule of the final sigma skips, \<open>cased\<close> the
  ranges of the other characters that count as letters with case there.
\<close>

definition lower_table :: "(nat \<times> nat \<times> nat \<times> nat) list" where
  "lower_table =
     [(0x41, 0x5A, 1, 0x61), (0xC0, 0xD6, 1, 0xE0), (0xD8, 0xDE, 1, 0xF8),
      (0x100, 0x12E, 2, 0x101), (0x132, 0x136, 2, 0x133), (0x139, 0x147, 2, 0x13A),
      (0x14A, 0x176, 2, 0x14B), (0x178, 0x178, 1, 0xFF), (0x179, 0x17D, 2, 0x17A),
      (0x181, 0x181, 1, 0x253), (0x182, 0x184, 2, 0x183), (0x186, 0x186, 1, 0x254),
      (0x187, 0x187, 1, 0x188), (0x189, 0x18A, 1, 0x256), (0x18B, 0x18B, 1, 0x18C),
      (0x18E, 0x18E, 1, 0x1DD), (0x18F, 0x18F, 1, 0x259), (0x190, 0x190, 1, 0x25B),
      (0x191, 0x191, 1, 0x192), (0x193, 0x193, 1, 0x260), (0x194, 0x194, 1, 0x263),
      (0x196, 0x196, 1, 0x269), (0x197, 0x197, 1, 0x268), (0x198, 0x198, 1, 0x199),
      (0x19C, 0x19C, 1, 0x26F), (0x19D, 0x19D, 1, 0x272), (0x19F, 0x19F, 1, 0x275),
      (0x1A0, 0x1A4, 2, 0x1A1), (0x1A6, 0x1A6, 1, 0x280), (0x1A7, 0x1A7, 1, 0x1A8),
      (0x1A9, 0x1A9, 1, 0x283), (0x1AC, 0x1AC, 1, 0x1AD), (0x1AE, 0x1AE, 1, 0x288),
      (0x1AF, 0x1AF, 1, 0x1B0), (0x1B1, 0x1B2, 1, 0x28A), (0x1B3, 0x1B5, 2, 0x1B4),
      (0x1B7, 0x1B7, 1, 0x292), (0x1B8, 0x1B8, 1, 0x1B9), (0x1BC, 0x1BC, 1, 0x1BD),
      (0x1C4, 0x1C4, 1, 0x1C6), (0x1C5, 0x1C5, 1, 0x1C6), (0x1C7, 0x1C7, 1, 0x1C9),
      (0x1C8, 0x1C8, 1, 0x1C9), (0x1CA, 0x1CA, 1, 0x1CC), (0x1CB, 0x1DB, 2, 0x1CC),
      (0x1DE, 0x1EE, 2, 0x1DF), (0x1F1, 0x1F1, 1, 0x1F3), (0x1F2, 0x1F4, 2, 0x1F3),
      (0x1F6, 0x1F6, 1, 0x195), (0x1F7, 0x1F7, 1, 0x1BF), (0x1F8, 0x21E, 2, 0x1F9),
      (0x220, 0x220, 1, 0x19E), (0x222, 0x232, 2, 0x223), (0x23A, 0x23A, 1, 0x2C65),
      (0x23B, 0x23B, 1, 0x23C), (0x23D, 0x23D, 1, 0x19A), (0x23E, 0x23E, 1, 0x2C66),
      (0x241, 0x241, 1, 0x242), (0x243, 0x243, 1, 0x180), (0x244, 0x244, 1, 0x289),
      (0x245, 0x245, 1, 0x28C), (0x246, 0x24E, 2, 0x247), (0x370, 0x372, 2, 0x371),
      (0x376, 0x376, 1, 0x377), (0x37F, 0x37F, 1, 0x3F3), (0x386, 0x386, 1, 0x3AC),
      (0x388, 0x38A, 1, 0x3AD), (0x38C, 0x38C, 1, 0x3CC), (0x38E, 0x38F, 1, 0x3CD),
      (0x391, 0x3A1, 1, 0x3B1), (0x3A3, 0x3AB, 1, 0x3C3), (0x3CF, 0x3CF, 1, 0x3D7),
      (0x3D8, 0x3EE, 2, 0x3D9), (0x3F4, 0x3F4, 1, 0x3B8), (0x3F7, 0x3F7, 1, 0x3F8),
      (0x3F9, 0x3F9, 1, 0x3F2), (0x3FA, 0x3FA, 1, 0x3FB), (0x3FD, 0x3FF, 1, 0x37B),
      (0x400, 0x40F, 1, 0x450), (0x410, 0x42F, 1, 0x430), (0x460, 0x480, 2, 0x461),
      (0x48A, 0x4BE, 2, 0x48B), (0x4C0, 0x4C0, 1, 0x4CF), (0x4C1, 0x4CD, 2, 0x4C2),
      (0x4D0, 0x52E, 2, 0x4D1), (0x531, 0x556, 1, 0x561), (0x10A0, 0x10C5, 1, 0x2D00),
      (0x10C7, 0x10C7, 1, 0x2D27), (0x10CD, 0x10CD, 1, 0x2D2D), (0x13A0, 0x13EF, 1, 0xAB70),
      (0x13F0, 0x13F5, 1, 0x13F8), (0x1C90, 0x1CBA, 1, 0x10D0), (0x1CBD, 0x1CBF, 1, 0x10FD),
      (0x1E00, 0x1E94, 2, 0x1E01), (0x1E9E, 0x1E9E, 1, 0xDF), (0x1EA0, 0x1EFE, 2, 0x1EA1),
      (0x1F08, 0x1F0F, 1, 0x1F00), (0x1F18, 0x1F1D, 1, 0x1F10), (0x1F28, 0x1F2F, 1, 0x1F20),
      (0x1F38, 0x1F3F, 1, 0x1F30), (0x1F48, 0x1F4D, 1, 0x1F40), (0x1F59, 0x1F5F, 2, 0x1F51),
      (0x1F68, 0x1F6F, 1, 0x1F60), (0x1F88, 0x1F8F, 1, 0x1F80), (0x1F98, 0x1F9F, 1, 0x1F90),
      (0x1FA8, 0x1FAF, 1, 0x1FA0), (0x1FB8, 0x1FB9, 1, 0x1FB0), (0x1FBA, 0x1FBB, 1, 0x1F70),
      (0x1FBC, 0x1FBC, 1, 0x1FB3), (0x1FC8, 0x1FCB, 1, 0x1F72), (0x1FCC, 0x1FCC, 1, 0x1FC3),
      (0x1FD8, 0x1FD9, 1, 0x1FD0), (0x1FDA, 0x1FDB, 1, 0x1F76), (0x1FE8, 0x1FE9, 1, 0x1FE0),
      (0x1FEA, 0x1FEB, 1, 0x1F7A), (0x1FEC, 0x1FEC, 1, 0x1FE5), (0x1FF8, 0x1FF9, 1, 0x1F78),
      (0x1FFA, 0x1FFB, 1, 0x1F7C), (0x1FFC, 0x1FFC, 1, 0x1FF3), (0x2126, 0x2126, 1, 0x3C9),
      (0x212A, 0x212A, 1, 0x6B), (0x212B, 0x212B, 1, 0xE5), (0x2132, 0x2132, 1, 0x214E),
      (0x2160, 0x216F, 1, 0x2170), (0x2183, 0x2183, 1, 0x2184), (0x24B6, 0x24CF, 1, 0x24D0),
      (0x2C00, 0x2C2F, 1, 0x2C30), (0x2C60, 0x2C60, 1, 0x2C61), (0x2C62, 0x2C62, 1, 0x26B),
      (0x2C63, 0x2C63, 1, 0x1D7D), (0x2C64, 0x2C64, 1, 0x27D), (0x2C67, 0x2C6B, 2, 0x2C68),
      (0x2C6D, 0x2C6D, 1, 0x251), (0x2C6E, 0x2C6E, 1, 0x271), (0x2C6F, 0x2C6F, 1, 0x250),
      (0x2C70, 0x2C70, 1, 0x252), (0x2C72, 0x2C72, 1, 0x2C73), (0x2C75, 0x2C75, 1, 0x2C76),
      (0x2C7E, 0x2C7F, 1, 0x23F), (0x2C80, 0x2CE2, 2, 0x2C81), (0x2CEB, 0x2CED, 2, 0x2CEC),
      (0x2CF2, 0x2CF2, 1, 0x2CF3), (0xA640, 0xA66C, 2, 0xA641), (0xA680, 0xA69A, 2, 0xA681),
      (0xA722, 0xA72E, 2, 0xA723), (0xA732, 0xA76E, 2, 0xA733), (0xA779, 0xA77B, 2, 0xA77A),
      (0xA77D, 0xA77D, 1, 0x1D79), (0xA77E, 0xA786, 2, 0xA77F), (0xA78B, 0xA78B, 1, 0xA78C),
      (0xA78D, 0xA78D, 1, 0x265), (0xA790, 0xA792, 2, 0xA791), (0xA796, 0xA7A8, 2, 0xA797),
      (0xA7AA, 0xA7AA, 1, 0x266), (0xA7AB, 0xA7AB, 1, 0x25C), (0xA7AC, 0xA7AC, 1, 0x261),
      (0xA7AD, 0xA7AD, 1, 0x26C), (0xA7AE, 0xA7AE, 1, 0x26A), (0xA7B0, 0xA7B0, 1, 0x29E),
      (0xA7B1, 0xA7B1, 1, 0x287), (0xA7B2, 0xA7B2, 1, 0x29D), (0xA7B3, 0xA7B3, 1, 0xAB53),
      (0xA7B4, 0xA7C2, 2, 0xA7B5), (0xA7C4, 0xA7C4, 1, 0xA794), (0xA7C5, 0xA7C5, 1, 0x282),
      (0xA7C6, 0xA7C6, 1, 0x1D8E), (0xA7C7, 0xA7C9, 2, 0xA7C8), (0xA7D0, 0xA7D0, 1, 0xA7D1),
      (0xA7D6, 0xA7D8, 2, 0xA7D7), (0xA7F5, 0xA7F5, 1, 0xA7F6), (0xFF21, 0xFF3A, 1, 0xFF41),
      (0x10400, 0x10427, 1, 0x10428), (0x104B0, 0x104D3, 1, 0x104D8), (0x10570, 0x1057A, 1, 0x10597),
      (0x1057C, 0x1058A, 1, 0x105A3), (0x1058C, 0x10592, 1, 0x105B3), (0x10594, 0x10595, 1, 0x105BB),
      (0x10C80, 0x10CB2, 1, 0x10CC0), (0x118A0, 0x118BF, 1, 0x118C0), (0x16E40, 0x16E5F, 1, 0x16E60),
      (0x1E900, 0x1E921, 1, 0x1E922)]"

definition case_ignorable :: "(nat \<times> nat) list" where
  "case_ignorable =
     [(0x27, 0x27), (0x2E, 0x2E), (0x3A, 0x3A), (0x5E, 0x5E), (0x60, 0x60),
      (0xA8, 0xA8), (0xAD, 0xAD), (0xAF, 0xAF), (0xB4, 0xB4), (0xB7, 0xB8),
      (0x2B0, 0x36F), (0x374, 0x375), (0x37A, 0x37A), (0x384, 0x385), (0x387, 0x387),
      (0x483, 0x489), (0x559, 0x559), (0x55F, 0x55F), (0x591, 0x5BD), (0x5BF, 0x5BF),
      (0x5C1, 0x5C2), (0x5C4, 0x5C5), (0x5C7, 0x5C7), (0x5F4, 0x5F4), (0x600, 0x605),
      (0x610, 0x61A), (0x61C, 0x61C), (0x640, 0x640), (0x64B, 0x65F), (0x670, 0x670),
      (0x6D6, 0x6DD), (0x6DF, 0x6E8), (0x6EA, 0x6ED), (0x70F, 0x70F), (0x711, 0x711),
      (0x730, 0x74A), (0x7A6, 0x7B0), (0x7EB, 0x7F5), (0x7FA, 0x7FA), (0x7FD, 0x7FD),
      (0x816, 0x82D), (0x859, 0x85B), (0x888, 0x888), (0x890, 0x891), (0x898, 0x89F),
      (0x8C9, 0x902), (0x93A, 0x93A), (0x93C, 0x93C), (0x941, 0x948), (0x94D, 0x94D),
      (0x951, 0x957), (0x962, 0x963), (0x971, 0x971), (0x981, 0x981), (0x9BC, 0x9BC),
      (0x9C1, 0x9C4), (0x9CD, 0x9CD), (0x9E2, 0x9E3), (0x9FE, 0x9FE), (0xA01, 0xA02),
      (0xA3C, 0xA3C), (0xA41, 0xA42), (0xA47, 0xA48), (0xA4B, 0xA4D), (0xA51, 0xA51),
      (0xA70, 0xA71), (0xA75, 0xA75), (0xA81, 0xA82), (0xABC, 0xABC), (0xAC1, 0xAC5),
      (0xAC7, 0xAC8), (0xACD, 0xACD), (0xAE2, 0xAE3), (0xAFA, 0xAFF), (0xB01, 0xB01),
      (0xB3C, 0xB3C), (0xB3F, 0xB3F), (0xB41, 0xB44), (0xB4D, 0xB4D), (0xB55, 0xB56),
      (0xB62, 0xB63), (0xB82, 0xB82), (0xBC0, 0xBC0), (0xBCD, 0xBCD), (0xC00, 0xC00),
      (0xC04, 0xC04), (0xC3C, 0xC3C), (0xC3E, 0xC40), (0xC46, 0xC48), (0xC4A, 0xC4D),
      (0xC55, 0xC56), (0xC62, 0xC63), (0xC81, 0xC81), (0xCBC, 0xCBC), (0xCBF, 0xCBF),
      (0xCC6, 0xCC6), (0xCCC, 0xCCD), (0xCE2, 0xCE3), (0xD00, 0xD01), (0xD3B, 0xD3C),
      (0xD41, 0xD44), (0xD4D, 0xD4D), (0xD62, 0xD63), (0xD81, 0xD81), (0xDCA, 0xDCA),
      (0xDD2, 0xDD4), (0xDD6, 0xDD6), (0xE31, 0xE31), (0xE34, 0xE3A), (0xE46, 0xE4E),
      (0xEB1, 0xEB1), (0xEB4, 0xEBC), (0xEC6, 0xEC6), (0xEC8, 0xECD), (0xF18, 0xF19),
      (0xF35, 0xF35), (0xF37, 0xF37), (0xF39, 0xF39), (0xF71, 0xF7E), (0xF80, 0xF84),
      (0xF86, 0xF87), (0xF8D, 0xF97), (0xF99, 0xFBC), (0xFC6, 0xFC6), (0x102D, 0x1030),
      (0x1032, 0x1037), (0x1039, 0x103A), (0x103D, 0x103E), (0x1058, 0x1059), (0x105E, 0x1060),
      (0x1071, 0x1074), (0x1082, 0x1082), (0x1085, 0x1086), (0x108D, 0x108D), (0x109D, 0x109D),
      (0x10FC, 0x10FC), (0x135D, 0x135F), (0x1712, 0x1714), (0x1732, 0x1733), (0x1752, 0x1753),
      (0x1772, 0x1773), (0x17B4, 0x17B5), (0x17B7, 0x17BD), (0x17C6, 0x17C6), (0x17C9, 0x17D3),
      (0x17D7, 0x17D7), (0x17DD, 0x17DD), (0x180B, 0x180F), (0x1843, 0x1843), (0x1885, 0x1886),
      (0x18A9, 0x18A9), (0x1920, 0x1922), (0x1927, 0x1928), (0x1932, 0x1932), (0x1939, 0x193B),
      (0x1A17, 0x1A18), (0x1A1B, 0x1A1B), (0x1A56, 0x1A56), (0x1A58, 0x1A5E), (0x1A60, 0x1A60),
      (0x1A62, 0x1A62), (0x1A65, 0x1A6C), (0x1A73, 0x1A7C), (0x1A7F, 0x1A7F), (0x1AA7, 0x1AA7),
      (0x1AB0, 0x1ACE), (0x1B00, 0x1B03), (0x1B34, 0x1B34), (0x1B36, 0x1B3A), (0x1B3C, 0x1B3C),
      (0x1B42, 0x1B42), (0x1B6B, 0x1B73), (0x1B80, 0x1B81), (0x1BA2, 0x1BA5), (0x1BA8, 0x1BA9),
      (0x1BAB, 0x1BAD), (0x1BE6, 0x1BE6), (0x1BE8, 0x1BE9), (0x1BED, 0x1BED), (0x1BEF, 0x1BF1),
      (0x1C2C, 0x1C33), (0x1C36, 0x1C37), (0x1C78, 0x1C7D), (0x1CD0, 0x1CD2), (0x1CD4, 0x1CE0),
      (0x1CE2, 0x1CE8), (0x1CED, 0x1CED), (0x1CF4, 0x1CF4), (0x1CF8, 0x1CF9), (0x1D2C, 0x1D6A),
      (0x1D78, 0x1D78), (0x1D9B, 0x1DFF), (0x1FBD, 0x1FBD), (0x1FBF, 0x1FC1), (0x1FCD, 0x1FCF),
      (0x1FDD, 0x1FDF), (0x1FED, 0x1FEF), (0x1FFD, 0x1FFE), (0x200B, 0x200F), (0x2018, 0x2019),
      (0x2024, 0x2024), (0x2027, 0x2027), (0x202A, 0x202E), (0x2060, 0x2064), (0x2066, 0x206F),
      (0x2071, 0x2071), (0x207F, 0x207F), (0x2090, 0x209C), (0x20D0, 0x20F0), (0x2C7C, 0x2C7D),
      (0x2CEF, 0x2CF1), (0x2D6F, 0x2D6F), (0x2D7F, 0x2D7F), (0x2DE0, 0x2DFF), (0x2E2F, 0x2E2F),
      (0x3005, 0x3005), (0x302A, 0x302D), (0x3031, 0x3035), (0x303B, 0x303B), (0x3099, 0x309E),
      (0x30FC, 0x30FE), (0xA015, 0xA015), (0xA4F8, 0xA4FD), (0xA60C, 0xA60C), (0xA66F, 0xA672),
      (0xA674, 0xA67D), (0xA67F, 0xA67F), (0xA69C, 0xA69F), (0xA6F0, 0xA6F1), (0xA700, 0xA721),
      (0xA770, 0xA770), (0xA788, 0xA78A), (0xA7F2, 0xA7F4), (0xA7F8, 0xA7F9), (0xA802, 0xA802),
      (0xA806, 0xA806), (0xA80B, 0xA80B), (0xA825, 0xA826), (0xA82C, 0xA82C), (0xA8C4, 0xA8C5),
      (0xA8E0, 0xA8F1), (0xA8FF, 0xA8FF), (0xA926, 0xA92D), (0xA947, 0xA951), (0xA980, 0xA982),
      (0xA9B3, 0xA9B3), (0xA9B6, 0xA9B9), (0xA9BC, 0xA9BD), (0xA9CF, 0xA9CF), (0xA9E5, 0xA9E6),
      (0xAA29, 0xAA2E), (0xAA31, 0xAA32), (0xAA35, 0xAA36), (0xAA43, 0xAA43), (0xAA4C, 0xAA4C),
      (0xAA70, 0xAA70), (0xAA7C, 0xAA7C), (0xAAB0, 0xAAB0), (0xAAB2, 0xAAB4), (0xAAB7, 0xAAB8),
      (0xAABE, 0xAABF), (0xAAC1, 0xAAC1), (0xAADD, 0xAADD), (0xAAEC, 0xAAED), (0xAAF3, 0xAAF4),
      (0xAAF6, 0xAAF6), (0xAB5B, 0xAB5F), (0xAB69, 0xAB6B), (0xABE5, 0xABE5), (0xABE8, 0xABE8),
      (0xABED, 0xABED), (0xFB1E, 0xFB1E), (0xFBB2, 0xFBC2), (0xFE00, 0xFE0F), (0xFE13, 0xFE13),
      (0xFE20, 0xFE2F), (0xFE52, 0xFE52), (0xFE55, 0xFE55), (0xFEFF, 0xFEFF), (0xFF07, 0xFF07),
      (0xFF0E, 0xFF0E), (0xFF1A, 0xFF1A), (0xFF3E, 0xFF3E), (0xFF40, 0xFF40), (0xFF70, 0xFF70),
      (0xFF9E, 0xFF9F), (0xFFE3, 0xFFE3), (0xFFF9, 0xFFFB), (0x101FD, 0x101FD), (0x102E0, 0x102E0),
      (0x10376, 0x1037A), (0x10780, 0x10785), (0x10787, 0x107B0), (0x107B2, 0x107BA), (0x10A01, 0x10A03),
      (0x10A05, 0x10A06), (0x10A0C, 0x10A0F), (0x10A38, 0x10A3A), (0x10A3F, 0x10A3F), (0x10AE5, 0x10AE6),
      (0x10D24, 0x10D27), (0x10EAB, 0x10EAC), (0x10F46, 0x10F50), (0x10F82, 0x10F85), (0x11001, 0x11001),
      (0x11038, 0x11046), (0x11070, 0x11070), (0x11073, 0x11074), (0x1107F, 0x11081), (0x110B3, 0x110B6),
      (0x110B9, 0x110BA), (0x110BD, 0x110BD), (0x110C2, 0x110C2), (0x110CD, 0x110CD), (0x11100, 0x11102),
      (0x11127, 0x1112B), (0x1112D, 0x11134), (0x11173, 0x11173), (0x11180, 0x11181), (0x111B6, 0x111BE),
      (0x111C9, 0x111CC), (0x111CF, 0x111CF), (0x1122F, 0x11231), (0x11234, 0x11234), (0x11236, 0x11237),
      (0x1123E, 0x1123E), (0x112DF, 0x112DF), (0x112E3, 0x112EA), (0x11300, 0x11301), (0x1133B, 0x1133C),
      (0x11340, 0x11340), (0x11366, 0x1136C), (0x11370, 0x11374), (0x11438, 0x1143F), (0x11442, 0x11444),
      (0x11446, 0x11446), (0x1145E, 0x1145E), (0x114B3, 0x114B8), (0x114BA, 0x114BA), (0x114BF, 0x114C0),
      (0x114C2, 0x114C3), (0x115B2, 0x115B5), (0x115BC, 0x115BD), (0x115BF, 0x115C0), (0x115DC, 0x115DD),
      (0x11633, 0x1163A), (0x1163D, 0x1163D), (0x1163F, 0x11640), (0x116AB, 0x116AB), (0x116AD, 0x116AD),
      (0x116B0, 0x116B5), (0x116B7, 0x116B7), (0x1171D, 0x1171F), (0x11722, 0x11725), (0x11727, 0x1172B),
      (0x1182F, 0x11837), (0x11839, 0x1183A), (0x1193B, 0x1193C), (0x1193E, 0x1193E), (0x11943, 0x11943),
      (0x119D4, 0x119D7), (0x119DA, 0x119DB), (0x119E0, 0x119E0), (0x11A01, 0x11A0A), (0x11A33, 0x11A38),
      (0x11A3B, 0x11A3E), (0x11A47, 0x11A47), (0x11A51, 0x11A56), (0x11A59, 0x11A5B), (0x11A8A, 0x11A96),
      (0x11A98, 0x11A99), (0x11C30, 0x11C36), (0x11C38, 0x11C3D), (0x11C3F, 0x11C3F), (0x11C92, 0x11CA7),
      (0x11CAA, 0x11CB0), (0x11CB2, 0x11CB3), (0x11CB5, 0x11CB6), (0x11D31, 0x11D36), (0x11D3A, 0x11D3A),
      (0x11D3C, 0x11D3D), (0x11D3F, 0x11D45), (0x11D47, 0x11D47), (0x11D90, 0x11D91), (0x11D95, 0x11D95),
      (0x11D97, 0x11D97), (0x11EF3, 0x11EF4), (0x13430, 0x13438), (0x16AF0, 0x16AF4), (0x16B30, 0x16B36),
      (0x16B40, 0x16B43), (0x16F4F, 0x16F4F), (0x16F8F, 0x16F9F), (0x16FE0, 0x16FE1), (0x16FE3, 0x16FE4),
      (0x1AFF0, 0x1AFF3), (0x1AFF5, 0x1AFFB), (0x1AFFD, 0x1AFFE), (0x1BC9D, 0x1BC9E), (0x1BCA0, 0x1BCA3),
      (0x1CF00, 0x1CF2D), (0x1CF30, 0x1CF46), (0x1D167, 0x1D169), (0x1D173, 0x1D182), (0x1D185, 0x1D18B),
      (0x1D1AA, 0x1D1AD), (0x1D242, 0x1D244), (0x1DA00, 0x1DA36), (0x1DA3B, 0x1DA6C), (0x1DA75, 0x1DA75),
      (0x1DA84, 0x1DA84), (0x1DA9B, 0x1DA9F), (0x1DAA1, 0x1DAAF), (0x1E000, 0x1E006), (0x1E008, 0x1E018),
      (0x1E01B, 0x1E021), (0x1E023, 0x1E024), (0x1E026, 0x1E02A), (0x1E130, 0x1E13D), (0x1E2AE, 0x1E2AE),
      (0x1E2EC, 0x1E2EF), (0x1E8D0, 0x1E8D6), (0x1E944, 0x1E94B), (0x1F3FB, 0x1F3FF), (0xE0001, 0xE0001),
      (0xE0020, 0xE007F), (0xE0100, 0xE01EF)]"

definition cased :: "(nat \<times> nat) list" where
  "cased =
     [(0x41, 0x5A), (0x61, 0x7A), (0xAA, 0xAA), (0xB5, 0xB5), (0xBA, 0xBA),
      (0xC0, 0xD6), (0xD8, 0xF6), (0xF8, 0x1BA), (0x1BC, 0x1BF), (0x1C4, 0x293),
      (0x295, 0x2AF), (0x370, 0x373), (0x376, 0x377), (0x37B, 0x37D), (0x37F, 0x37F),
      (0x386, 0x386), (0x388, 0x38A), (0x38C, 0x38C), (0x38E, 0x3A1), (0x3A3, 0x3F5),
      (0x3F7, 0x481), (0x48A, 0x52F), (0x531, 0x556), (0x560, 0x588), (0x10A0, 0x10C5),
      (0x10C7, 0x10C7), (0x10CD, 0x10CD), (0x10D0, 0x10FA), (0x10FD, 0x10FF), (0x13A0, 0x13F5),
      (0x13F8, 0x13FD), (0x1C80, 0x1C88), (0x1C90, 0x1CBA), (0x1CBD, 0x1CBF), (0x1D00, 0x1D2B),
      (0x1D6B, 0x1D77), (0x1D79, 0x1D9A), (0x1E00, 0x1F15), (0x1F18, 0x1F1D), (0x1F20, 0x1F45),
      (0x1F48, 0x1F4D), (0x1F50, 0x1F57), (0x1F59, 0x1F59), (0x1F5B, 0x1F5B), (0x1F5D, 0x1F5D),
      (0x1F5F, 0x1F7D), (0x1F80, 0x1FB4), (0x1FB6, 0x1FBC), (0x1FBE, 0x1FBE), (0x1FC2, 0x1FC4),
      (0x1FC6, 0x1FCC), (0x1FD0, 0x1FD3), (0x1FD6, 0x1FDB), (0x1FE0, 0x1FEC), (0x1FF2, 0x1FF4),
      (0x1FF6, 0x1FFC), (0x2102, 0x2102), (0x2107, 0x2107), (0x210A, 0x2113), (0x2115, 0x2115),
      (0x2119, 0x211D), (0x2124, 0x2124), (0x2126, 0x2126), (0x2128, 0x2128), (0x212A, 0x212D),
      (0x212F, 0x2134), (0x2139, 0x2139), (0x213C, 0x213F), (0x2145, 0x2149), (0x214E, 0x214E),
      (0x2160, 0x217F), (0x2183, 0x2184), (0x24B6, 0x24E9), (0x2C00, 0x2C7B), (0x2C7E, 0x2CE4),
      (0x2CEB, 0x2CEE), (0x2CF2, 0x2CF3), (0x2D00, 0x2D25), (0x2D27, 0x2D27), (0x2D2D, 0x2D2D),
      (0xA640, 0xA66D), (0xA680, 0xA69B), (0xA722, 0xA76F), (0xA771, 0xA787), (0xA78B, 0xA78E),
      (0xA790, 0xA7CA), (0xA7D0, 0xA7D1), (0xA7D3, 0xA7D3), (0xA7D5, 0xA7D9), (0xA7F5, 0xA7F6),
      (0xA7FA, 0xA7FA), (0xAB30, 0xAB5A), (0xAB60, 0xAB68), (0xAB70, 0xABBF), (0xFB00, 0xFB06),
      (0xFB13, 0xFB17), (0xFF21, 0xFF3A), (0xFF41, 0xFF5A), (0x10400, 0x1044F), (0x104B0, 0x104D3),
      (0x104D8, 0x104FB), (0x10570, 0x1057A), (0x1057C, 0x1058A), (0x1058C, 0x10592), (0x10594, 0x10595),
      (0x10597, 0x105A1), (0x105A3, 0x105B1), (0x105B3, 0x105B9), (0x105BB, 0x105BC), (0x10C80, 0x10CB2),
      (0x10CC0, 0x10CF2), (0x118A0, 0x118DF), (0x16E40, 0x16E7F), (0x1D400, 0x1D454), (0x1D456, 0x1D49C),
      (0x1D49E, 0x1D49F), (0x1D4A2, 0x1D4A2), (0x1D4A5, 0x1D4A6), (0x1D4A9, 0x1D4AC), (0x1D4AE, 0x1D4B9),
      (0x1D4BB, 0x1D4BB), (0x1D4BD, 0x1D4C3), (0x1D4C5, 0x1D505), (0x1D507, 0x1D50A), (0x1D50D, 0x1D514),
      (0x1D516, 0x1D51C), (0x1D51E, 0x1D539), (0x1D53B, 0x1D53E), (0x1D540, 0x1D544), (0x1D546, 0x1D546),
      (0x1D54A, 0x1D550), (0x1D552, 0x1D6A5), (0x1D6A8, 0x1D6C0), (0x1D6C2, 0x1D6DA), (0x1D6DC, 0x1D6FA),
      (0x1D6FC, 0x1D714), (0x1D716, 0x1D734), (0x1D736, 0x1D74E), (0x1D750, 0x1D76E), (0x1D770, 0x1D788),
      (0x1D78A, 0x1D7A8), (0x1D7AA, 0x1D7C2), (0x1D7C4, 0x1D7CB), (0x1DF00, 0x1DF09), (0x1DF0B, 0x1DF1E),
      (0x1E900, 0x1E943), (0x1F130, 0x1F149), (0x1F150, 0x1F169), (0x1F170, 0x1F189)]"

definition in_ranges :: "nat \<Rightarrow> (nat \<times> nat) list \<Rightarrow> bool" where
  "in_ranges cp rs = list_ex (\<lambda>(lo, hi). lo \<le> cp \<and> cp \<le> hi) rs"

definition simple_lower :: "nat \<Rightarrow> nat" where
  "simple_lower cp =
     (case find (\<lambda>(lo, hi, step, target).
                   lo \<le> cp \<and> cp \<le> hi \<and> (cp - lo) mod step = 0) lower_table of
        None \<Rightarrow> cp
      | Some (lo, hi, step, target) \<Rightarrow> target + (cp - lo))"

text \<open>The first character that is not skipped is a cased letter.\<close>

definition cased_next :: "nat list \<Rightarrow> bool" where
  "cased_next cps =
     (case dropWhile (\<lambda>cp. in_ranges cp case_ignorable) cps of
        [] \<Rightarrow> False
      | cp # _ \<Rightarrow> in_ranges cp cased)"

text \<open>
  The conversion of a list of code points, \<open>seen\<close> being those already passed, last
  first. U+0130 becomes two code points. The capital sigma U+03A3 becomes the final
  sigma U+03C2 after a cased letter and before none, and the small sigma otherwise.
\<close>

fun lower_points :: "nat list \<Rightarrow> nat list \<Rightarrow> nat list" where
  "lower_points seen [] = []"
| "lower_points seen (cp # after) =
     (if cp = 0x130 then [0x69, 0x307]
      else if cp = 0x3A3 \<and> cased_next seen \<and> \<not> cased_next after then [0x3C2]
      else [simple_lower cp])
     @ lower_points (cp # seen) after"

definition toLowerCase :: "jsstring \<Rightarrow> jsstring" where
  "toLowerCase s = concat (map utf16 (lower_points [] (code_points s)))"

text \<open>
  \<^verbatim>\<open>s.split(sep)\<close> for a separator of one code unit: the parts between the
  separators, never an empty array (\<^verbatim>\<open>''.split('.')\<close> is \<^verbatim>\<open>['']\<close>).
\<close>

fun split_str :: "16 word \<Rightarrow> jsstring \<Rightarrow> jsstring list" where
  "split_str sep [] = [[]]"
| "split_str sep (c # cs) =
     (if c = sep then [] # split_str sep cs
      else (c # hd (split_str sep cs)) # tl (split_str sep cs))"

text \<open>\<^verbatim>\<open>parts.pop()\<close>: the last element, \<^verbatim>\<open>undefined\<close> for an empty array.\<close>

definition pop :: "'a list \<Rightarrow> 'a option" where
  "pop xs = (if xs = [] then None else Some (last xs))"

text \<open>
  \<^verbatim>\<open>n.toString()\<close> for a non-negative integer below \<open>10\<^sup>2\<^sup>1\<close>: its decimal digits,
  without leading zeros.
\<close>

definition digit :: "nat \<Rightarrow> 16 word" where
  "digit d = of_nat (48 + d)"

fun toString :: "nat \<Rightarrow> jsstring" where
  "toString n = (if n < 10 then [digit n] else toString (n div 10) @ [digit (n mod 10)])"

declare toString.simps [simp del]

text \<open>
  \<^verbatim>\<open>s.padStart(n, fill)\<close>: \<open>s\<close> itself when it is long enough or the filler is
  empty, otherwise the filler repeated and cut to the missing length, then \<open>s\<close>.
\<close>

definition padStart :: "nat \<Rightarrow> jsstring \<Rightarrow> jsstring \<Rightarrow> jsstring" where
  "padStart n fill s =
     (if n \<le> length s \<or> fill = [] then s
      else take (n - length s) (concat (replicate (n - length s) fill)) @ s)"

subsection \<open>Reference number and amount\<close>

text \<open>
  \<^verbatim>\<open>generateReferenceNumber\<close>. The draw \<^verbatim>\<open>Math.floor(Math.random() * 100000)\<close> is
  the argument: an integer from 0 to 99999.
\<close>

definition generateReferenceNumber :: "nat \<Rightarrow> jsstring" where
  "generateReferenceNumber draw =
     (let randomNum = padStart 5 (str ''0'') (toString draw)
      in str ''EDI'' @ randomNum)"

text \<open>
  \<^verbatim>\<open>amountMap\<close> is an object literal, so \<^verbatim>\<open>amountMap[hours]\<close> looks at the five
  own properties first and then at the properties every object literal inherits from
  \<^verbatim>\<open>Object.prototype\<close>. Those are functions (the accessor \<^verbatim>\<open>__proto__\<close> yields the
  prototype object), none of them a string and all of them truthy.
\<close>

datatype property = Undefined | Str jsstring | Inherited jsstring

definition Object_prototype :: "jsstring list" where
  "Object_prototype = map str
     [''constructor'', ''hasOwnProperty'', ''isPrototypeOf'', ''propertyIsEnumerable'',
      ''toLocaleString'', ''toString'', ''valueOf'', ''__proto__'',
      ''__defineGetter__'', ''__defineSetter__'', ''__lookupGetter__'', ''__lookupSetter__'']"

definition get_property :: "(jsstring \<times> jsstring) list \<Rightarrow> jsstring \<Rightarrow> property" where
  "get_property obj key =
     (case map_of obj key of
        Some v \<Rightarrow> Str v
      | None \<Rightarrow> if key \<in> set Object_prototype then Inherited key else Undefined)"

definition truthy :: "property \<Rightarrow> bool" where
  "truthy v = (case v of Undefined \<Rightarrow> False | Str s \<Rightarrow> s \<noteq> [] | Inherited k \<Rightarrow> True)"

definition amountMap :: "(jsstring \<times> jsstring) list" where
  "amountMap =
     [(str ''10'', pound # str ''165''),
      (str ''20'', pound # str ''330''),
      (str ''30'', pound # str ''495''),
      (str ''40'', pound # str ''660''),
      (str ''50'', pound # str ''825'')]"

definition getAmountFromHours :: "jsstring \<Rightarrow> property" where
  "getAmountFromHours hours =
     (if truthy (get_property amountMap hours) then get_property amountMap hours
      else Str (str ''''))"

subsection \<open>\<^verbatim>\<open>encodeURIComponent\<close>\<close>

text \<open>
  The built-in of the language: letters, digits and \<^verbatim>\<open>- _ . ! ~ * ' ( )\<close> are kept,
  every other code point is written as its UTF-8 bytes, each as \<^verbatim>\<open>%XX\<close>. A
  surrogate code unit that is not half of a pair raises \<^verbatim>\<open>URIError\<close>: the result
  \<open>None\<close>.
\<close>

definition unescaped :: "16 word \<Rightarrow> bool" where
  "unescaped c =
     ((0x41 \<le> c \<and> c \<le> 0x5A) \<or> (0x61 \<le> c \<and> c \<le> 0x7A) \<or> (0x30 \<le> c \<and> c \<le> 0x39)
      \<or> c \<in> set (0x27 # str ''-_.!~*()''))"

definition utf8 :: "nat \<Rightarrow> nat list" where
  "utf8 cp =
     (if cp < 0x80 then [cp]
      else if cp < 0x800 then [0xC0 + cp div 64, 0x80 + cp mod 64]
      else if cp < 0x10000 then
        [0xE0 + cp div 4096, 0x80 + cp div 64 mod 64, 0x80 + cp mod 64]
      else
        [0xF0 + cp div 262144, 0x80 + cp div 4096 mod 64, 0x80 + cp div 64 mod 64,
         0x80 + cp mod 64])"

definition hexdigit :: "nat \<Rightarrow> 16 word" where
  "hexdigit d = (if d < 10 then of_nat (48 + d) else of_nat (55 + d))"

definition escape :: "nat \<Rightarrow> jsstring" where
  "escape cp = concat (map (\<lambda>b. [0x25, hexdigit (b div 16), hexdigit (b mod 16)]) (utf8 cp))"

fun encodeURIComponent :: "jsstring \<Rightarrow> jsstring option" where
  "encodeURIComponent [] = Some []"
| "encodeURIComponent (c # cs) =
     (if unescaped c then map_option ((#) c) (encodeURIComponent cs)
      else if isTrail c then None
      else if isLead c then
        (case cs of
           [] \<Rightarrow> None
         | d # ds \<Rightarrow>
             if isTrail d then map_option ((@) (escape (codepoint c d))) (encodeURIComponent ds)
             else None)
      else map_option ((@) (escape (unat c))) (encodeURIComponent cs))"

text \<open>\<^verbatim>\<open>s.isWellFormed()\<close>: no surrogate code unit outside a pair.\<close>

fun isWellFormed :: "jsstring \<Rightarrow> bool" where
  "isWellFormed [] = True"
| "isWellFormed (c # cs) =
     (if isTrail c then False
      else if isLead c then
        (case cs of [] \<Rightarrow> False | d # ds \<Rightarrow> isTrail d \<and> isWellFormed ds)
      else isWellFormed cs)"

subsection \<open>The state of the component\<close>

text \<open>
  \<^verbatim>\<open>formData\<close> is an object with fifteen string properties. The initial state
  defines all of them and \<^verbatim>\<open>handleInputChange\<close> is the \<^verbatim>\<open>onChange\<close> of exactly the
  inputs with these fifteen names, so the object is a function from the names.
\<close>

datatype field =
    firstName | lastName | email | over18 | dataEntryExperience | experienceDescription
  | accessibility | hoursPerWeek | hasComputer | rightToWork | criminalConvictions
  | dbsCheck | englishFluency | otherLanguages | selfDescription

record File =
  file_name :: jsstring
  file_size :: nat

record attributes =
  FIRSTNAME :: jsstring
  LASTNAME :: jsstring
  HOURS :: jsstring
  AMOUNT :: property
  UNIQUE :: jsstring

record createContact =
  contact_email :: jsstring
  contact_attributes :: attributes
  listIds :: "nat list"

text \<open>
  The five state hooks, and the two things of the world outside that the handlers
  change: the calls of \<^verbatim>\<open>apiInstance.createContact\<close> made so far, and
  \<^verbatim>\<open>window.location.href\<close> once it has been assigned.
\<close>

record state =
  formData :: "field \<Rightarrow> jsstring"
  isSubmitting :: bool
  error :: "jsstring option"
  uploadedFile :: "File option"
  isDragging :: bool
  requests :: "createContact list"
  location_href :: "jsstring option"

definition initial :: state where
  "initial =
     \<lparr>formData = (\<lambda>_. str ''''), isSubmitting = False, error = None, uploadedFile = None,
      isDragging = False, requests = [], location_href = None\<rparr>"

subsection \<open>Input and file handlers\<close>

definition handleInputChange :: "field \<Rightarrow> jsstring \<Rightarrow> state \<Rightarrow> state" where
  "handleInputChange name value s = s\<lparr>formData := (formData s)(name := value), error := None\<rparr>"

text \<open>\<^verbatim>\<open>fileType || ''\<close>: the empty string for \<^verbatim>\<open>undefined\<close> and for \<^verbatim>\<open>''\<close>.\<close>

definition or_empty :: "jsstring option \<Rightarrow> jsstring" where
  "or_empty v = (case v of None \<Rightarrow> str '''' | Some s \<Rightarrow> if s = [] then str '''' else s)"

definition fileTypeOf :: "File \<Rightarrow> jsstring option" where
  "fileTypeOf f = pop (split_str 0x2E (toLowerCase (file_name f)))"

definition validateAndSetFile :: "File \<Rightarrow> state \<Rightarrow> state" where
  "validateAndSetFile f s =
     (if file_size f > 10 * 1024 * 1024 then
        s\<lparr>error := Some (str ''File size must be less than 10MB''), uploadedFile := None\<rparr>
      else if or_empty (fileTypeOf f) \<notin> set [str ''pdf'', str ''doc'', str ''docx''] then
        s\<lparr>error := Some (str ''Only PDF, DOC, or DOCX files are allowed''),
          uploadedFile := None\<rparr>
      else s\<lparr>uploadedFile := Some f, error := None\<rparr>)"

text \<open>
  The picker and the drop zone: \<^verbatim>\<open>files?.[0]\<close> is the first file, if there is one.
\<close>

definition handleFileChange :: "File option \<Rightarrow> state \<Rightarrow> state" where
  "handleFileChange files s = (case files of None \<Rightarrow> s | Some f \<Rightarrow> validateAndSetFile f s)"

definition handleDragEnter :: "state \<Rightarrow> state" where
  "handleDragEnter s = s\<lparr>isDragging := True\<rparr>"

definition handleDragLeave :: "state \<Rightarrow> state" where
  "handleDragLeave s = s\<lparr>isDragging := False\<rparr>"

definition handleDragOver :: "state \<Rightarrow> state" where
  "handleDragOver s = s"

definition handleDrop :: "File option \<Rightarrow> state \<Rightarrow> state" where
  "handleDrop files s =
     (case files of
        None \<Rightarrow> s\<lparr>isDragging := False\<rparr>
      | Some f \<Rightarrow> validateAndSetFile f (s\<lparr>isDragging := False\<rparr>))"

text \<open>The \<^verbatim>\<open>onClick\<close> of the Remove button.\<close>

definition removeFile :: "state \<Rightarrow> state" where
  "removeFile s = s\<lparr>uploadedFile := None\<rparr>"

subsection \<open>Validation\<close>

text \<open>What a \<^verbatim>\<open>throw\<close> raises: an \<^verbatim>\<open>Error\<close>, by its message, or another value.\<close>

datatype thrown = Error jsstring | Thrown_value

definition requiredFields :: "field list" where
  "requiredFields =
     [firstName, lastName, email, over18, dataEntryExperience, accessibility, hoursPerWeek,
      hasComputer, rightToWork, criminalConvictions, dbsCheck, englishFluency,
      selfDescription]"

text \<open>
  \<^verbatim>\<open>validateForm\<close>: \<open>Inl\<close> is the \<^verbatim>\<open>throw\<close>. \<^verbatim>\<open>!formData[field]\<close> holds of a
  string exactly when it is empty.
\<close>

definition validateForm :: "(field \<Rightarrow> jsstring) \<Rightarrow> thrown + unit" where
  "validateForm fd =
     (if \<not> includes_unit (fd email) 0x40 then
        Inl (Error (str ''Please enter a valid email address''))
      else
        let missingFields = filter (\<lambda>field. fd field = []) requiredFields
        in if length missingFields > 0 then
             Inl (Error (str ''Please fill in all required fields''))
           else Inr ())"

subsection \<open>Submission\<close>

text \<open>
  The request object that \<^verbatim>\<open>handleSubmit\<close> fills in; \<open>draw\<close> is the random draw of
  \<^verbatim>\<open>generateReferenceNumber\<close>.
\<close>

definition newContact :: "(field \<Rightarrow> jsstring) \<Rightarrow> nat \<Rightarrow> createContact" where
  "newContact fd draw =
     (let referenceNumber = generateReferenceNumber draw
      in \<lparr>contact_email = fd email,
          contact_attributes =
            \<lparr>FIRSTNAME = fd firstName,
             LASTNAME = fd lastName,
             HOURS = fd hoursPerWeek,
             AMOUNT = getAmountFromHours (fd hoursPerWeek),
             UNIQUE = referenceNumber\<rparr>,
          listIds = [7]\<rparr>)"

text \<open>
  How the awaited call ends: it resolves, or it rejects with an error object, of which
  the handler reads \<^verbatim>\<open>apiError.response?.text\<close> (\<open>None\<close> when there is no response
  or no text).
\<close>

datatype outcome = Resolved | Rejected "jsstring option"

text \<open>
  What \<^verbatim>\<open>JSON.parse(text).message\<close> evaluates to. The parser belongs to the
  platform and is a parameter of the handler. \<open>Throws m\<close>: the text is not JSON, or
  it is the JSON \<^verbatim>\<open>null\<close>, and an error with message \<open>m\<close> is raised.
  \<open>Message_undefined\<close>: the parsed value has no \<^verbatim>\<open>message\<close>.
  \<open>Message_string m\<close>: the \<^verbatim>\<open>message\<close> is the string \<open>m\<close>.
  \<open>Message_other m\<close>: the \<^verbatim>\<open>message\<close> is another value, which \<^verbatim>\<open>new Error\<close>
  converts to the string \<open>m\<close>.
\<close>

datatype parsed =
    Throws jsstring | Message_undefined | Message_string jsstring | Message_other jsstring

definition connectivity_message :: jsstring where
  "connectivity_message =
     str ''Unable to connect to the server. Please check your internet connection and try again.''"

definition confirmation_url :: jsstring where
  "confirmation_url = str ''https://exactdatainput.uk/application-submitted?email=''"

text \<open>
  The inner \<^verbatim>\<open>catch (apiError)\<close>: the error it throws. A missing or empty
  \<^verbatim>\<open>response.text\<close> is falsy. \<^verbatim>\<open>new Error(undefined)\<close> has the empty message.
\<close>

definition apiErrorHandler :: "(jsstring \<Rightarrow> parsed) \<Rightarrow> jsstring option \<Rightarrow> thrown" where
  "apiErrorHandler parse text =
     (case text of
        None \<Rightarrow> Error connectivity_message
      | Some t \<Rightarrow>
          if t = [] then Error connectivity_message
          else (case parse t of
                  Throws m \<Rightarrow> Error m
                | Message_undefined \<Rightarrow> Error (str '''')
                | Message_string m \<Rightarrow> Error m
                | Message_other m \<Rightarrow> Error m))"

text \<open>
  The outer \<^verbatim>\<open>catch\<close> and \<^verbatim>\<open>finally\<close>. Everything that \<^verbatim>\<open>validateForm\<close> and
  the inner \<^verbatim>\<open>catch\<close> throw is an \<^verbatim>\<open>Error\<close>; the branch for other values is
  kept as the source has it.
\<close>

definition on_error :: "thrown \<Rightarrow> state \<Rightarrow> state" where
  "on_error e s =
     (case e of
        Error m \<Rightarrow> s\<lparr>error := Some m\<rparr>
      | Thrown_value \<Rightarrow>
          s\<lparr>error :=
              Some (str ''There was an error submitting your application. Please try again.'')\<rparr>)"

definition cleanup :: "state \<Rightarrow> state" where
  "cleanup s = s\<lparr>isSubmitting := False\<rparr>"

text \<open>
  \<^verbatim>\<open>handleSubmit\<close> is an \<^verbatim>\<open>async\<close> function with one \<^verbatim>\<open>await\<close>, so it runs
  in two parts. Every render makes a new \<^verbatim>\<open>handleSubmit\<close>, which reads
  \<^verbatim>\<open>isSubmitting\<close> and \<^verbatim>\<open>formData\<close> as the constants of that render, while its
  setters act on the state of the moment. \<open>handleSubmit_start view\<close> is the part up to
  the \<^verbatim>\<open>await\<close> of the handler that the render of the state \<open>view\<close> made: it either
  returns, or has issued the call and waits, holding the \<^verbatim>\<open>formData.email\<close> of its
  closure. \<open>handleSubmit_begin\<close> is a submit that follows a render: the state it runs
  on is the one that was rendered. \<open>handleSubmit_resume\<close> is the part after the
  \<^verbatim>\<open>await\<close>, run on the state of that later moment. An exception of
  \<^verbatim>\<open>encodeURIComponent\<close> is raised inside the inner \<^verbatim>\<open>try\<close>, and is an error
  object without \<^verbatim>\<open>response\<close>.
\<close>

datatype progress = Returned state | Awaiting state jsstring

definition handleSubmit_start :: "state \<Rightarrow> nat \<Rightarrow> state \<Rightarrow> progress" where
  "handleSubmit_start view draw s =
     (if isSubmitting view then Returned s
      else
        let s1 = s\<lparr>isSubmitting := True, error := None\<rparr>
        in case validateForm (formData view) of
             Inl e \<Rightarrow> Returned (cleanup (on_error e s1))
           | Inr _ \<Rightarrow>
               Awaiting (s1\<lparr>requests := requests s1 @ [newContact (formData view) draw]\<rparr>)
                 (formData view email))"

definition handleSubmit_begin :: "nat \<Rightarrow> state \<Rightarrow> progress" where
  "handleSubmit_begin draw s = handleSubmit_start s draw s"

definition handleSubmit_resume ::
  "(jsstring \<Rightarrow> parsed) \<Rightarrow> jsstring \<Rightarrow> outcome \<Rightarrow> state \<Rightarrow> state" where
  "handleSubmit_resume parse submitted_email result s =
     (case result of
        Resolved \<Rightarrow>
          (case encodeURIComponent submitted_email of
             Some q \<Rightarrow> cleanup (s\<lparr>location_href := Some (confirmation_url @ q)\<rparr>)
           | None \<Rightarrow> cleanup (on_error (apiErrorHandler parse None) s))
      | Rejected text \<Rightarrow> cleanup (on_error (apiErrorHandler parse text) s))"

text \<open>
  The whole handler, for a submit that follows a render, when nothing else happens while
  the call is awaited.
\<close>

definition handleSubmit :: "(jsstring \<Rightarrow> parsed) \<Rightarrow> nat \<Rightarrow> outcome \<Rightarrow> state \<Rightarrow> state" where
  "handleSubmit parse draw result s =
     (case handleSubmit_begin draw s of
        Returned s' \<Rightarrow> s'
      | Awaiting s' submitted_email \<Rightarrow> handleSubmit_resume parse submitted_email result s')"

subsection \<open>Events\<close>

text \<open>
  The events of the user interface. \<open>step\<close> handles an event that follows a
  render, as the events of a user do: the handlers are those of the state it finds. A
  \<open>Submit\<close> runs the handler up to its \<^verbatim>\<open>await\<close>.
\<close>

datatype event =
    Change field jsstring | Pick "File option" | Drop "File option" | DragEnter | DragLeave
  | DragOver | Remove | Submit nat

fun step :: "state \<Rightarrow> event \<Rightarrow> state" where
  "step s (Change name value) = handleInputChange name value s"
| "step s (Pick files) = handleFileChange files s"
| "step s (Drop files) = handleDrop files s"
| "step s DragEnter = handleDragEnter s"
| "step s DragLeave = handleDragLeave s"
| "step s DragOver = handleDragOver s"
| "step s Remove = removeFile s"
| "step s (Submit draw) =
     (case handleSubmit_begin draw s of Returned s' \<Rightarrow> s' | Awaiting s' _ \<Rightarrow> s')"

text \<open>
  React renders when the task that dispatched an event is over, so events that a script
  dispatches in a row are all handled by the handlers of the same render.
  \<open>dispatch view s ev\<close> is the state after the handler of the render of \<open>view\<close> has
  handled \<open>ev\<close> in the state \<open>s\<close>; only \<^verbatim>\<open>handleSubmit\<close> reads its render, the other
  handlers use setters alone. \<open>task s evs\<close> dispatches the events \<open>evs\<close> in a row on
  the rendered state \<open>s\<close>.
\<close>

fun dispatch :: "state \<Rightarrow> state \<Rightarrow> event \<Rightarrow> state" where
  "dispatch view s (Change name value) = handleInputChange name value s"
| "dispatch view s (Pick files) = handleFileChange files s"
| "dispatch view s (Drop files) = handleDrop files s"
| "dispatch view s DragEnter = handleDragEnter s"
| "dispatch view s DragLeave = handleDragLeave s"
| "dispatch view s DragOver = handleDragOver s"
| "dispatch view s Remove = removeFile s"
| "dispatch view s (Submit draw) =
     (case handleSubmit_start view draw s of Returned s' \<Rightarrow> s' | Awaiting s' _ \<Rightarrow> s')"

definition task :: "state \<Rightarrow> event list \<Rightarrow> state" where
  "task s evs = foldl (dispatch s) s evs"

subsection \<open>Notions used to state the properties\<close>

text \<open>A decimal digit, and the number that a string of decimal digits writes.\<close>

definition isDigit :: "16 word \<Rightarrow> bool" where
  "isDigit c = (0x30 \<le> c \<and> c \<le> 0x39)"

definition decimal :: "jsstring \<Rightarrow> nat" where
  "decimal ds = foldl (\<lambda>a c. 10 * a + (unat c - 48)) 0 ds"

text \<open>
  The lower case form of an ASCII code unit, and the part of a string after its last
  full stop (the whole string when it has none).
\<close>

definition ascii_lower :: "16 word \<Rightarrow> 16 word" where
  "ascii_lower c = (if 0x41 \<le> c \<and> c \<le> 0x5A then c + 0x20 else c)"

definition after_last_dot :: "jsstring \<Rightarrow> jsstring" where
  "after_last_dot s = rev (takeWhile (\<lambda>c. c \<noteq> 0x2E) (rev s))"

subsection \<open>Example states\<close>

text \<open>
  A filled form, reached from the initial state by input events; the same form with an
  unpaired surrogate in front of the email, and with the first name deleted; three
  files; a response text with a message; and two parsers, one that takes no text for
  JSON and one that knows that response text and the empty object.
\<close>

definition applicant :: state where
  "applicant = foldl step initial
     [Change firstName (str ''Ann''), Change lastName (str ''Lee''),
      Change email (str ''ann@example.org''), Change over18 (str ''yes''),
      Change dataEntryExperience (str ''no''), Change accessibility (str ''no''),
      Change hoursPerWeek (str ''20''), Change hasComputer (str ''yes''),
      Change rightToWork (str ''yes''), Change criminalConvictions (str ''no''),
      Change dbsCheck (str ''yes''), Change englishFluency (str ''I cannot speak English.''),
      Change selfDescription (str ''Careful'')]"

definition unpaired :: state where
  "unpaired = step applicant (Change email (0xD83D # str ''@example.org''))"

definition nameless :: state where
  "nameless = step applicant (Change firstName (str ''''))"

definition cv :: File where
  "cv = \<lparr>file_name = str ''CV.PDF'', file_size = 204800\<rparr>"

definition oversized :: File where
  "oversized = \<lparr>file_name = str ''scan.pdf'', file_size = 10485761\<rparr>"

definition picture :: File where
  "picture = \<lparr>file_name = str ''photo.png'', file_size = 1024\<rparr>"

definition not_json :: "jsstring \<Rightarrow> parsed" where
  "not_json text = Throws (str ''Unexpected token'')"

definition error_body :: jsstring where
  "error_body = str ''{'' @ 0x22 # str ''message'' @ 0x22 # str '':'' @ 0x22
     # str ''Contact already exist'' @ 0x22 # str ''}''"

definition sample_parse :: "jsstring \<Rightarrow> parsed" where
  "sample_parse text =
     (if text = error_body then Message_string (str ''Contact already exist'')
      else if text = str ''{}'' then Message_undefined
      else Throws (str ''Unexpected token''))"

section \<open>Properties\<close>

subsection \<open>The reference number\<close>

lemma unat_digit: "d < 10 \<Longrightarrow> unat (digit d) = 48 + d"
  unfolding digit_def unat_of_nat by simp

lemma isDigit_digit: "d < 10 \<Longrightarrow> isDigit (digit d)"
  by (simp add: isDigit_def word_le_nat_alt unat_digit)

lemma toString_digits: "list_all isDigit (toString n)"
proof (induction n rule: toString.induct)
  case (1 n)
  show ?case
  proof (cases "n < 10")
    case True
    then show ?thesis by (subst toString.simps) (simp add: isDigit_digit)
  next
    case False
    with 1 show ?thesis by (subst toString.simps) (simp add: isDigit_digit)
  qed
qed

lemma toString_length: "0 < k \<Longrightarrow> n < 10 ^ k \<Longrightarrow> length (toString n) \<le> k"
proof (induction k arbitrary: n)
  case 0
  then show ?case by simp
next
  case (Suc k)
  show ?case
  proof (cases "n < 10")
    case True
    then show ?thesis by (subst toString.simps) simp
  next
    case False
    then have k: "0 < k" using Suc.prems by (cases k) auto
    have "n div 10 < 10 ^ k" using Suc.prems by (simp add: less_mult_imp_div_less mult.commute)
    then have "length (toString (n div 10)) \<le> k" using Suc.IH k by blast
    with False show ?thesis by (subst toString.simps) simp
  qed
qed

lemma decimal_snoc: "decimal (ds @ [c]) = 10 * decimal ds + (unat c - 48)"
  by (simp add: decimal_def)

lemma decimal_toString: "decimal (toString n) = n"
proof (induction n rule: toString.induct)
  case (1 n)
  show ?case
  proof (cases "n < 10")
    case True
    then show ?thesis by (subst toString.simps) (simp add: decimal_def unat_digit)
  next
    case False
    with 1 show ?thesis by (subst toString.simps) (simp add: decimal_snoc unat_digit)
  qed
qed

lemma decimal_zeros: "decimal (replicate k 0x30 @ ds) = decimal ds"
proof -
  have "foldl (\<lambda>a c. 10 * a + (unat c - 48)) 0 (replicate k (0x30 :: 16 word)) = 0"
    by (induction k) simp_all
  then show ?thesis by (simp add: decimal_def)
qed

lemma padStart_zero: "padStart n (str ''0'') s = replicate (n - length s) 0x30 @ s"
  by (simp add: padStart_def str_def)

text \<open>
  C5. For every draw from 0 to 99999 the reference number is \<^verbatim>\<open>EDI\<close> followed by
  exactly five decimal digits, and these digits are the draw, padded with zeros on the
  left to width five.
\<close>

theorem reference_number_format:
  assumes "draw < 100000"
  shows "take 3 (generateReferenceNumber draw) = str ''EDI''
    \<and> length (drop 3 (generateReferenceNumber draw)) = 5
    \<and> list_all isDigit (drop 3 (generateReferenceNumber draw))
    \<and> decimal (drop 3 (generateReferenceNumber draw)) = draw
    \<and> generateReferenceNumber draw
        = str ''EDI'' @ replicate (5 - length (toString draw)) 0x30 @ toString draw"
proof -
  have len: "length (toString draw) \<le> 5"
    using assms toString_length [of 5 draw] by simp
  have shape: "generateReferenceNumber draw
      = str ''EDI'' @ replicate (5 - length (toString draw)) 0x30 @ toString draw"
    by (simp add: generateReferenceNumber_def padStart_zero)
  have three: "length (str ''EDI'') = 3"
    by (simp add: str_def)
  have rest: "drop 3 (generateReferenceNumber draw)
      = replicate (5 - length (toString draw)) 0x30 @ toString draw"
    using three by (simp add: shape)
  have zero: "isDigit 0x30"
    by (simp add: isDigit_def)
  have "take 3 (generateReferenceNumber draw) = str ''EDI''"
    using three by (simp add: shape)
  moreover have "length (drop 3 (generateReferenceNumber draw)) = 5"
    using len by (simp add: rest)
  moreover have "list_all isDigit (drop 3 (generateReferenceNumber draw))"
    using zero toString_digits [of draw] by (auto simp: rest list_all_iff)
  moreover have "decimal (drop 3 (generateReferenceNumber draw)) = draw"
    by (simp add: rest decimal_zeros decimal_toString)
  ultimately show ?thesis using shape by blast
qed

theorem reference_number_format_witness:
  "generateReferenceNumber 42 = str ''EDI00042''
   \<and> decimal (drop 3 (generateReferenceNumber 42)) = 42"
proof -
  have "(42::nat) < 100000" by simp
  from reference_number_format [OF this]
  have "decimal (drop 3 (generateReferenceNumber 42)) = 42"
    by blast
  moreover have "generateReferenceNumber 42 = str ''EDI00042''"
    by code_simp
  ultimately show ?thesis by blast
qed

subsection \<open>The amount\<close>

text \<open>
  The table, and the strings it has no entry for, when they are not the name of a
  property of \<^verbatim>\<open>Object.prototype\<close>.
\<close>

lemma amount_table:
  "getAmountFromHours (str ''10'') = Str (pound # str ''165'')
   \<and> getAmountFromHours (str ''20'') = Str (pound # str ''330'')
   \<and> getAmountFromHours (str ''30'') = Str (pound # str ''495'')
   \<and> getAmountFromHours (str ''40'') = Str (pound # str ''660'')
   \<and> getAmountFromHours (str ''50'') = Str (pound # str ''825'')
   \<and> (hours \<notin> set [str ''10'', str ''20'', str ''30'', str ''40'', str ''50'']
        \<and> hours \<notin> set Object_prototype
        \<longrightarrow> getAmountFromHours hours = Str (str ''''))"
  by (simp add: getAmountFromHours_def get_property_def truthy_def amountMap_def
      Object_prototype_def str_def pound_def)

lemma amount_table_example:
  "getAmountFromHours (str ''15'') = Str (str '''')
   \<and> getAmountFromHours (str ''20'') = Str (pound # str ''330'')"
  using amount_table [of "str ''15''"]
  by (simp add: Object_prototype_def str_def)

text \<open>
  C4 fails on the code. \<^verbatim>\<open>constructor\<close> is none of the five hours of the table, and
  its amount is not the empty string: \<^verbatim>\<open>amountMap['constructor']\<close> is the property
  that the object literal inherits under that name, which is truthy, so
  \<^verbatim>\<open>|| ''\<close> does not replace it.
\<close>

theorem amount_of_constructor:
  "str ''constructor'' \<notin> set [str ''10'', str ''20'', str ''30'', str ''40'', str ''50'']
   \<and> getAmountFromHours (str ''constructor'') \<noteq> Str (str '''')
   \<and> getAmountFromHours (str ''constructor'') = Inherited (str ''constructor'')"
  by (simp add: getAmountFromHours_def get_property_def truthy_def amountMap_def
      Object_prototype_def str_def)

subsection \<open>The file type\<close>

lemma split_str_nonempty: "split_str sep s \<noteq> []"
  by (cases s) simp_all

lemma split_str_no_sep: "sep \<notin> set s \<Longrightarrow> split_str sep s = [s]"
  by (induction s) auto

lemma last_split_str_append:
  "last (split_str sep (a @ sep # b)) = last (split_str sep b)"
proof (induction a)
  case Nil
  then show ?case by (simp add: split_str_nonempty)
next
  case (Cons c a)
  have ne: "split_str sep (a @ sep # b) \<noteq> []" by (rule split_str_nonempty)
  have two: "tl (split_str sep (a @ sep # b)) \<noteq> []"
    by (induction a) (simp_all add: split_str_nonempty)
  show ?case
  proof (cases "c = sep")
    case True
    with Cons ne show ?thesis by simp
  next
    case False
    with Cons two show ?thesis by (simp add: last_tl)
  qed
qed

lemma lower_table_split:
  "lower_table = (0x41, 0x5A, 1, 0x61) # tl lower_table"
  "list_all (\<lambda>(lo, hi, step, target). 0x80 \<le> lo) (tl lower_table)"
  by (simp_all add: lower_table_def)

lemma lower_table_bounds:
  "list_all (\<lambda>(lo, hi, step, target).
     0x41 \<le> lo \<and> lo \<le> hi \<and> 0x61 \<le> target \<and> target + (hi - lo) < 0x110000) lower_table"
  by (simp add: lower_table_def)

lemma simple_lower_ascii:
  assumes "cp < 0x80"
  shows "simple_lower cp = (if 0x41 \<le> cp \<and> cp \<le> 0x5A then cp + 0x20 else cp)"
proof -
  let ?P = "\<lambda>(lo, hi, step, target). lo \<le> cp \<and> cp \<le> hi \<and> (cp - lo) mod step = 0"
  have "find ?P (tl lower_table) = None"
    using lower_table_split(2) assms by (auto simp: find_None_iff list_all_iff)
  then have "find ?P lower_table
      = (if 0x41 \<le> cp \<and> cp \<le> 0x5A then Some (0x41, 0x5A, 1, 0x61) else None)"
    by (subst lower_table_split(1)) simp
  then show ?thesis by (auto simp: simple_lower_def)
qed

lemma simple_lower_cases:
  obtains "simple_lower cp = cp"
  | lo hi step target where "(lo, hi, step, target) \<in> set lower_table" "lo \<le> cp" "cp \<le> hi"
      "simple_lower cp = target + (cp - lo)"
proof (cases "find (\<lambda>(lo, hi, step, target). lo \<le> cp \<and> cp \<le> hi \<and> (cp - lo) mod step = 0)
    lower_table")
  case None
  then have "simple_lower cp = cp" by (simp add: simple_lower_def)
  then show ?thesis by (rule that(1))
next
  case (Some e)
  obtain lo hi step target where e: "e = (lo, hi, step, target)" by (cases e)
  from Some have "e \<in> set lower_table" and "(case e of (lo, hi, step, target) \<Rightarrow>
      lo \<le> cp \<and> cp \<le> hi \<and> (cp - lo) mod step = 0)"
    by (auto simp: find_Some_iff in_set_conv_nth)
  with e Some show ?thesis by (intro that(2) [of lo hi step target]) (auto simp: simple_lower_def)
qed

lemma simple_lower_dot: "simple_lower cp = 0x2E \<longleftrightarrow> cp = 0x2E"
proof (cases cp rule: simple_lower_cases)
  case 1
  then show ?thesis by simp
next
  case (2 lo hi step target)
  with lower_table_bounds have "0x41 \<le> lo" "0x61 \<le> target"
    by (auto simp: list_all_iff)
  with 2 show ?thesis by auto
qed

lemma simple_lower_bound: "cp < 0x110000 \<Longrightarrow> simple_lower cp < 0x110000"
proof (cases cp rule: simple_lower_cases)
  case 1
  then show "cp < 0x110000 \<Longrightarrow> ?thesis" by simp
next
  case (2 lo hi step target)
  with lower_table_bounds have "target + (hi - lo) < 0x110000"
    by (auto simp: list_all_iff)
  with 2 show ?thesis by auto
qed

lemma unat_bound16: "unat (c :: 16 word) < 65536"
  using unsigned_less [of c, where ?'a = nat] by simp

lemma of_nat_dot: "n < 65536 \<Longrightarrow> (of_nat n :: 16 word) = 0x2E \<longleftrightarrow> n = 0x2E"
proof
  assume "n < 65536" and "(of_nat n :: 16 word) = 0x2E"
  then have "unat (of_nat n :: 16 word) = 46" by simp
  with \<open>n < 65536\<close> show "n = 0x2E" by (simp add: unat_of_nat)
next
  assume "n = 0x2E"
  then show "(of_nat n :: 16 word) = 0x2E" by simp
qed

lemma unat_less_128: "(c :: 16 word) < 0x80 \<longleftrightarrow> unat c < 128"
  by (simp add: word_less_nat_alt)

lemma ascii_not_surrogate: "(c :: 16 word) < 0x80 \<Longrightarrow> \<not> isLead c \<and> \<not> isTrail c"
  unfolding isLead_def isTrail_def by (auto; unat_arith)

lemma codepoint_bounds:
  "isLead c \<Longrightarrow> isTrail d \<Longrightarrow> 0x10000 \<le> codepoint c d \<and> codepoint c d < 0x110000"
proof -
  assume "isLead c" and "isTrail d"
  then have c: "0xD800 \<le> unat c" "unat c - 0xD800 \<le> 1023"
    and d: "0xDC00 \<le> unat d" "unat d - 0xDC00 \<le> 1023"
    by (auto simp: isLead_def isTrail_def word_le_nat_alt)
  from c(2) have "(unat c - 0xD800) * 0x400 \<le> 1023 * 0x400"
    by (rule mult_le_mono1)
  with d(2) show ?thesis by (simp add: codepoint_def)
qed

lemma code_points_bound: "cp \<in> set (code_points s) \<Longrightarrow> cp < 0x110000"
proof (induction s arbitrary: cp rule: code_points.induct)
  case 1
  then show ?case by simp
next
  case (2 c)
  then show ?case using unat_bound16 [of c] by simp
next
  case (3 c d cs)
  then show ?case
    using unat_bound16 [of c] codepoint_bounds [of c d] by (auto split: if_splits)
qed

lemma code_points_dot: "0x2E \<in> set (code_points s) \<Longrightarrow> 0x2E \<in> set s"
proof (induction s rule: code_points.induct)
  case 1
  then show ?case by simp
next
  case (2 c)
  then have "unat c = unat (0x2E :: 16 word)" by simp
  then show ?case by (simp only: word_unat_eq_iff [symmetric]) simp
next
  case (3 c d cs)
  show ?case
  proof (cases "isLead c \<and> isTrail d")
    case True
    with 3 codepoint_bounds [of c d] show ?thesis by auto
  next
    case False
    with 3 have "unat c = 0x2E \<or> 0x2E \<in> set (code_points (d # cs))" by auto
    then show ?thesis
    proof
      assume "unat c = 0x2E"
      then have "unat c = unat (0x2E :: 16 word)" by simp
      then have "c = 0x2E" by (simp only: word_unat_eq_iff [symmetric])
      then show ?thesis by simp
    next
      assume "0x2E \<in> set (code_points (d # cs))"
      with 3 False show ?thesis by auto
    qed
  qed
qed

lemma code_points_append:
  "\<not> isTrail d \<Longrightarrow> code_points (a @ d # r) = code_points a @ code_points (d # r)"
proof (induction a rule: code_points.induct)
  case 1
  then show ?case by simp
next
  case (2 c)
  then show ?case by simp
next
  case (3 c e cs)
  then show ?case by simp
qed

lemma code_points_ascii: "list_all (\<lambda>c. c < 0x80) s \<Longrightarrow> code_points s = map unat s"
proof (induction s rule: code_points.induct)
  case 1
  then show ?case by simp
next
  case (2 c)
  then show ?case by simp
next
  case (3 c d cs)
  then show ?case using ascii_not_surrogate [of c] by simp
qed

lemma utf16_dot: "cp < 0x110000 \<Longrightarrow> 0x2E \<in> set (utf16 cp) \<longleftrightarrow> cp = 0x2E"
proof (cases "cp < 0x10000")
  case True
  then show ?thesis using of_nat_dot [of cp] by (auto simp: utf16_def)
next
  case False
  assume "cp < 0x110000"
  with False have "(cp - 0x10000) div 0x400 < 0x400" by simp
  then have lead: "0xD800 + (cp - 0x10000) div 0x400 < 65536"
    and "0xD800 + (cp - 0x10000) div 0x400 \<noteq> 0x2E" by simp_all
  have trail: "0xDC00 + (cp - 0x10000) mod 0x400 < 65536"
    and "0xDC00 + (cp - 0x10000) mod 0x400 \<noteq> 0x2E" by simp_all
  from of_nat_dot [OF lead] of_nat_dot [OF trail] False show ?thesis
    by (auto simp: utf16_def)
qed

lemma lower_points_set:
  "set (lower_points seen cps) \<subseteq> {0x69, 0x307, 0x3C2} \<union> simple_lower ` set cps"
  by (induction seen cps rule: lower_points.induct) auto

lemma lower_points_append:
  "\<exists>x. lower_points seen (xs @ ys) = x @ lower_points (rev xs @ seen) ys"
proof (induction xs arbitrary: seen)
  case Nil
  then show ?case by simp
next
  case (Cons cp xs)
  from Cons [of "cp # seen"] obtain x
    where "lower_points (cp # seen) (xs @ ys) = x @ lower_points (rev xs @ cp # seen) ys" ..
  then show ?case by simp
qed

lemma lower_points_ascii:
  "list_all (\<lambda>cp. cp < 0x80) cps \<Longrightarrow> lower_points seen cps = map simple_lower cps"
  by (induction seen cps rule: lower_points.induct) auto

lemma ascii_lower_unat:
  "(c :: 16 word) < 0x80 \<Longrightarrow> utf16 (simple_lower (unat c)) = [ascii_lower c]"
proof -
  assume "c < 0x80"
  then have small: "unat c < 0x80" by (simp add: unat_less_128)
  show ?thesis
  proof (cases "0x41 \<le> c \<and> c \<le> 0x5A")
    case True
    then have "0x41 \<le> unat c \<and> unat c \<le> 0x5A" by (simp add: word_le_nat_alt)
    with small True show ?thesis
      by (simp add: simple_lower_ascii utf16_def ascii_lower_def)
  next
    case False
    then have "\<not> (0x41 \<le> unat c \<and> unat c \<le> 0x5A)" by (simp add: word_le_nat_alt)
    with small False show ?thesis
      by (simp add: simple_lower_ascii utf16_def ascii_lower_def)
  qed
qed

lemma concat_utf16_ascii:
  "list_all (\<lambda>c. c < 0x80) s
    \<Longrightarrow> concat (map utf16 (map simple_lower (map unat s))) = map ascii_lower s"
  by (induction s) (simp_all add: ascii_lower_unat)

lemma toLowerCase_ascii:
  assumes "list_all (\<lambda>c. c < 0x80) s"
  shows "toLowerCase s = map ascii_lower s"
proof -
  from assms have "list_all (\<lambda>cp. cp < 0x80) (map unat s)"
    by (simp add: list_all_iff unat_less_128)
  then have "lower_points [] (code_points s) = map simple_lower (map unat s)"
    using assms by (simp add: code_points_ascii lower_points_ascii)
  moreover have "concat (map utf16 (map simple_lower (map unat s))) = map ascii_lower s"
    using assms by (rule concat_utf16_ascii)
  ultimately show ?thesis by (simp add: toLowerCase_def)
qed

lemma toLowerCase_no_dot:
  assumes "0x2E \<notin> set s"
  shows "0x2E \<notin> set (toLowerCase s)"
proof
  assume "0x2E \<in> set (toLowerCase s)"
  then obtain cp where cp: "cp \<in> set (lower_points [] (code_points s))"
    and dot: "0x2E \<in> set (utf16 cp)"
    by (auto simp: toLowerCase_def)
  from cp lower_points_set [of "[]" "code_points s"]
  consider "cp \<in> {0x69, 0x307, 0x3C2}" | q where "q \<in> set (code_points s)" "cp = simple_lower q"
    by auto
  then show False
  proof cases
    case 1
    with dot show False by (auto simp: utf16_def)
  next
    case (2 q)
    then have "cp < 0x110000" by (simp add: code_points_bound simple_lower_bound)
    with dot have "cp = 0x2E" by (simp add: utf16_dot)
    with 2 have "q = 0x2E" by (simp add: simple_lower_dot)
    with 2 assms code_points_dot [of s] show False by simp
  qed
qed

lemma ascii_lower_dot: "ascii_lower c = 0x2E \<longleftrightarrow> c = 0x2E"
  by (auto simp: ascii_lower_def)

lemma toLowerCase_tail:
  assumes "list_all (\<lambda>c. c < 0x80) e"
  shows "\<exists>x. toLowerCase (a @ 0x2E # e) = x @ 0x2E # map ascii_lower e"
proof -
  have dot: "\<not> isTrail 0x2E" by (simp add: isTrail_def)
  from assms have tail: "list_all (\<lambda>c. c < 0x80) (0x2E # e)" by simp
  have "code_points (a @ 0x2E # e) = code_points a @ map unat (0x2E # e)"
    by (simp only: code_points_append [OF dot] code_points_ascii [OF tail])
  moreover obtain x where "lower_points [] (code_points a @ map unat (0x2E # e))
      = x @ lower_points (rev (code_points a) @ []) (map unat (0x2E # e))"
    using lower_points_append [of "[]" "code_points a" "map unat (0x2E # e)"] ..
  moreover have "list_all (\<lambda>cp. cp < 0x80) (map unat (0x2E # e))"
    using tail by (simp add: list_all_iff unat_less_128)
  then have "lower_points (rev (code_points a) @ []) (map unat (0x2E # e))
      = map simple_lower (map unat (0x2E # e))"
    by (rule lower_points_ascii)
  moreover have "concat (map utf16 (map simple_lower (map unat (0x2E # e))))
      = map ascii_lower (0x2E # e)"
    using tail by (rule concat_utf16_ascii)
  ultimately have "toLowerCase (a @ 0x2E # e)
      = concat (map utf16 x) @ map ascii_lower (0x2E # e)"
    by (simp add: toLowerCase_def)
  then show ?thesis by (auto simp: ascii_lower_def)
qed

text \<open>
  The conversion on letters outside ASCII: a Latin capital with an accent, the Kelvin
  sign, the dotted capital I, a letter written as a surrogate pair, and the capital
  sigma at the end of a word and inside one.
\<close>

lemma toLowerCase_examples:
  "toLowerCase [0xC9] = [0xE9]"
  "toLowerCase [0x212A] = [0x6B]"
  "toLowerCase [0x130] = [0x69, 0x307]"
  "toLowerCase [0xD801, 0xDC00] = [0xD801, 0xDC28]"
  by (simp_all add: toLowerCase_def simple_lower_def lower_table_def utf16_def isLead_def
      isTrail_def codepoint_def)

lemma final_sigma:
  "toLowerCase [0x41, 0x3A3] = [0x61, 0x3C2]"
  "toLowerCase [0x41, 0x3A3, 0x2E, 0x42] = [0x61, 0x3C3, 0x2E, 0x62]"
  by (simp_all add: toLowerCase_def simple_lower_def lower_table_def utf16_def isLead_def
      isTrail_def codepoint_def cased_next_def in_ranges_def case_ignorable_def cased_def)

lemma last_split_str: "last (split_str sep s) = rev (takeWhile (\<lambda>c. c \<noteq> sep) (rev s))"
proof (cases "sep \<in> set s")
  case False
  then have "takeWhile (\<lambda>c. c \<noteq> sep) (rev s) = rev s"
    by (auto simp: takeWhile_eq_all_conv)
  then have "rev (takeWhile (\<lambda>c. c \<noteq> sep) (rev s)) = s"
    by (simp only: rev_rev_ident)
  moreover have "last (split_str sep s) = s"
    using False by (simp add: split_str_no_sep)
  ultimately show ?thesis by (simp only:)
next
  case True
  then obtain a b where s: "s = a @ sep # b" and b: "sep \<notin> set b"
    by (auto dest: split_list_last)
  from b have "takeWhile (\<lambda>c. c \<noteq> sep) (rev b @ sep # rev a) = rev b"
    by (auto simp: takeWhile_tail)
  with s b show ?thesis by (simp add: last_split_str_append split_str_no_sep)
qed

lemma fileTypeOf_last: "fileTypeOf f = Some (after_last_dot (toLowerCase (file_name f)))"
  by (simp add: fileTypeOf_def pop_def split_str_nonempty last_split_str after_last_dot_def)

lemma fileTypeOf_no_dot:
  "0x2E \<notin> set (file_name f) \<Longrightarrow> fileTypeOf f = Some (toLowerCase (file_name f))"
  by (simp add: fileTypeOf_def pop_def split_str_no_sep toLowerCase_no_dot)

lemma fileTypeOf_ascii_tail:
  assumes "list_all (\<lambda>c. c < 0x80) e" and "0x2E \<notin> set e"
    and "file_name f = e \<or> file_name f = a @ 0x2E # e"
  shows "fileTypeOf f = Some (map ascii_lower e)"
proof -
  have nodot: "0x2E \<notin> set (map ascii_lower e)"
  proof
    assume "0x2E \<in> set (map ascii_lower e)"
    then obtain c where "c \<in> set e" and "ascii_lower c = 0x2E" by auto
    with assms(2) show False by (simp add: ascii_lower_dot)
  qed
  from assms(3) show ?thesis
  proof
    assume "file_name f = e"
    with assms(1,2) show ?thesis
      by (simp add: fileTypeOf_no_dot toLowerCase_ascii)
  next
    assume "file_name f = a @ 0x2E # e"
    moreover obtain x where "toLowerCase (a @ 0x2E # e) = x @ 0x2E # map ascii_lower e"
      using toLowerCase_tail [OF assms(1)] ..
    ultimately show ?thesis using nodot
      by (simp add: fileTypeOf_def pop_def split_str_nonempty last_split_str_append
          split_str_no_sep)
  qed
qed

lemma spellings:
  "\<forall>e \<in> set (map str
         [''pdf'', ''pdF'', ''pDf'', ''pDF'', ''Pdf'', ''PdF'', ''PDf'', ''PDF'',
          ''doc'', ''doC'', ''dOc'', ''dOC'', ''Doc'', ''DoC'', ''DOc'', ''DOC'',
          ''docx'', ''docX'', ''doCx'', ''doCX'', ''dOcx'', ''dOcX'', ''dOCx'', ''dOCX'',
          ''Docx'', ''DocX'', ''DoCx'', ''DoCX'', ''DOcx'', ''DOcX'', ''DOCx'', ''DOCX'']).
     list_all (\<lambda>c. c < 0x80) e \<and> 0x2E \<notin> set e \<and> e \<noteq> []
     \<and> map ascii_lower e \<in> set [str ''pdf'', str ''doc'', str ''docx'']"
  by (simp add: str_def ascii_lower_def)

text \<open>
  C10. The file type that is validated is the part of the lower-cased file name after
  its last full stop, and the whole lower-cased name when the name has no full stop. The
  match ignores case: a name that is one of the spellings of \<^verbatim>\<open>pdf\<close>, \<^verbatim>\<open>doc\<close> and
  \<^verbatim>\<open>docx\<close> in capital and small letters, or ends in a full stop and such a spelling,
  is accepted within the size limit, whatever stands before the full stop. So
  \<^verbatim>\<open>CV.PDF\<close> is accepted, and so is a file named \<^verbatim>\<open>pdf\<close>, \<^verbatim>\<open>doc\<close> or
  \<^verbatim>\<open>docx\<close> with no extension. Only the last part counts: \<^verbatim>\<open>CV.PDF.txt\<close> has the
  type \<^verbatim>\<open>txt\<close>.
\<close>

theorem extension_rule:
  "fileTypeOf f = Some (after_last_dot (toLowerCase (file_name f)))
   \<and> (0x2E \<notin> set (file_name f) \<longrightarrow> fileTypeOf f = Some (toLowerCase (file_name f)))
   \<and> (spelling \<in> set (map str
         [''pdf'', ''pdF'', ''pDf'', ''pDF'', ''Pdf'', ''PdF'', ''PDf'', ''PDF'',
          ''doc'', ''doC'', ''dOc'', ''dOC'', ''Doc'', ''DoC'', ''DOc'', ''DOC'',
          ''docx'', ''docX'', ''doCx'', ''doCX'', ''dOcx'', ''dOcX'', ''dOCx'', ''dOCX'',
          ''Docx'', ''DocX'', ''DoCx'', ''DoCX'', ''DOcx'', ''DOcX'', ''DOCx'', ''DOCX''])
        \<and> (file_name f = spelling \<or> file_name f = a @ 0x2E # spelling)
        \<and> file_size f \<le> 10 * 1024 * 1024
      \<longrightarrow> validateAndSetFile f s = s\<lparr>uploadedFile := Some f, error := None\<rparr>)
   \<and> toLowerCase (str ''ABCDEFGHIJKLMNOPQRSTUVWXYZ.0123456789'')
       = str ''abcdefghijklmnopqrstuvwxyz.0123456789''
   \<and> (file_name f = str ''CV.PDF'' \<longrightarrow> fileTypeOf f = Some (str ''pdf''))
   \<and> (file_name f = str ''CV.PDF.txt'' \<longrightarrow> fileTypeOf f = Some (str ''txt''))"
proof -
  have accepted: "validateAndSetFile f s = s\<lparr>uploadedFile := Some f, error := None\<rparr>"
    if sp: "spelling \<in> set (map str
         [''pdf'', ''pdF'', ''pDf'', ''pDF'', ''Pdf'', ''PdF'', ''PDf'', ''PDF'',
          ''doc'', ''doC'', ''dOc'', ''dOC'', ''Doc'', ''DoC'', ''DOc'', ''DOC'',
          ''docx'', ''docX'', ''doCx'', ''doCX'', ''dOcx'', ''dOcX'', ''dOCx'', ''dOCX'',
          ''Docx'', ''DocX'', ''DoCx'', ''DoCX'', ''DOcx'', ''DOcX'', ''DOCx'', ''DOCX''])"
      and name: "file_name f = spelling \<or> file_name f = a @ 0x2E # spelling"
      and size: "file_size f \<le> 10 * 1024 * 1024"
  proof -
    from sp spellings have ascii: "list_all (\<lambda>c. c < 0x80) spelling"
      and nodot: "0x2E \<notin> set spelling" and nonempty: "spelling \<noteq> []"
      and known: "map ascii_lower spelling \<in> set [str ''pdf'', str ''doc'', str ''docx'']"
      by blast+
    from fileTypeOf_ascii_tail [OF ascii nodot name] nonempty
    have "or_empty (fileTypeOf f) = map ascii_lower spelling"
      by (simp add: or_empty_def)
    with known size show ?thesis by (simp add: validateAndSetFile_def)
  qed
  have alphabet: "toLowerCase (str ''ABCDEFGHIJKLMNOPQRSTUVWXYZ.0123456789'')
       = str ''abcdefghijklmnopqrstuvwxyz.0123456789''"
    by (subst toLowerCase_ascii) (simp_all add: str_def ascii_lower_def)
  have cv_type: "fileTypeOf f = Some (str ''pdf'')" if "file_name f = str ''CV.PDF''"
  proof -
    have "file_name f = str ''PDF'' \<or> file_name f = str ''CV'' @ 0x2E # str ''PDF''"
      using that by (simp add: str_def)
    from fileTypeOf_ascii_tail [OF _ _ this] show ?thesis
      by (simp add: str_def ascii_lower_def)
  qed
  have txt_type: "fileTypeOf f = Some (str ''txt'')" if "file_name f = str ''CV.PDF.txt''"
  proof -
    have "file_name f = str ''txt'' \<or> file_name f = str ''CV.PDF'' @ 0x2E # str ''txt''"
      using that by (simp add: str_def)
    from fileTypeOf_ascii_tail [OF _ _ this] show ?thesis
      by (simp add: str_def ascii_lower_def)
  qed
  show ?thesis
    using fileTypeOf_last [of f] fileTypeOf_no_dot [of f] accepted alphabet cv_type txt_type
    by blast
qed

theorem extension_rule_witness:
  "fileTypeOf cv = Some (str ''pdf'')
   \<and> validateAndSetFile cv initial = initial\<lparr>uploadedFile := Some cv, error := None\<rparr>
   \<and> fileTypeOf \<lparr>file_name = str ''docx'', file_size = 1\<rparr> = Some (toLowerCase (str ''docx''))
   \<and> validateAndSetFile \<lparr>file_name = str ''DocX'', file_size = 1\<rparr> initial
       = initial\<lparr>uploadedFile := Some \<lparr>file_name = str ''DocX'', file_size = 1\<rparr>,
           error := None\<rparr>
   \<and> fileTypeOf \<lparr>file_name = str ''CV.PDF.txt'', file_size = 1\<rparr> = Some (str ''txt'')"
proof -
  have cv: "file_name cv = str ''CV.PDF''" "file_size cv \<le> 10 * 1024 * 1024"
    "file_name cv = str ''PDF'' \<or> file_name cv = str ''CV'' @ 0x2E # str ''PDF''"
    by (simp_all add: cv_def str_def)
  have listed: "str ''PDF'' \<in> set (map str
         [''pdf'', ''pdF'', ''pDf'', ''pDF'', ''Pdf'', ''PdF'', ''PDf'', ''PDF'',
          ''doc'', ''doC'', ''dOc'', ''dOC'', ''Doc'', ''DoC'', ''DOc'', ''DOC'',
          ''docx'', ''docX'', ''doCx'', ''doCX'', ''dOcx'', ''dOcX'', ''dOCx'', ''dOCX'',
          ''Docx'', ''DocX'', ''DoCx'', ''DoCX'', ''DOcx'', ''DOcX'', ''DOCx'', ''DOCX''])"
    "str ''DocX'' \<in> set (map str
         [''pdf'', ''pdF'', ''pDf'', ''pDF'', ''Pdf'', ''PdF'', ''PDf'', ''PDF'',
          ''doc'', ''doC'', ''dOc'', ''dOC'', ''Doc'', ''DoC'', ''DOc'', ''DOC'',
          ''docx'', ''docX'', ''doCx'', ''doCX'', ''dOcx'', ''dOcX'', ''dOCx'', ''dOCX'',
          ''Docx'', ''DocX'', ''DoCx'', ''DoCX'', ''DOcx'', ''DOcX'', ''DOCx'', ''DOCX''])"
    by simp_all
  let ?bare = "\<lparr>file_name = str ''docx'', file_size = 1\<rparr>"
  let ?mixed = "\<lparr>file_name = str ''DocX'', file_size = 1\<rparr>"
  let ?double = "\<lparr>file_name = str ''CV.PDF.txt'', file_size = 1\<rparr>"
  have bare: "0x2E \<notin> set (file_name ?bare)"
    by (simp add: str_def)
  have mixed: "file_name ?mixed = str ''DocX'' \<or> file_name ?mixed = [] @ 0x2E # str ''DocX''"
    "file_size ?mixed \<le> 10 * 1024 * 1024"
    by simp_all
  have double: "file_name ?double = str ''CV.PDF.txt''"
    by simp
  from extension_rule [of cv "str ''PDF''" "str ''CV''" initial] cv listed(1)
  have "fileTypeOf cv = Some (str ''pdf'')"
    and "validateAndSetFile cv initial = initial\<lparr>uploadedFile := Some cv, error := None\<rparr>"
    by blast+
  moreover from extension_rule [of ?bare "[]" "[]" initial] bare
  have "fileTypeOf ?bare = Some (toLowerCase (file_name ?bare))"
    by blast
  moreover from extension_rule [of ?mixed "str ''DocX''" "[]" initial] listed(2) mixed
  have "validateAndSetFile ?mixed initial = initial\<lparr>uploadedFile := Some ?mixed, error := None\<rparr>"
    by blast
  moreover from extension_rule [of ?double "[]" "[]" initial] double
  have "fileTypeOf ?double = Some (str ''txt'')"
    by blast
  ultimately show ?thesis by simp
qed

subsection \<open>File validation\<close>

text \<open>
  C6. A file is accepted exactly when its size is at most \<open>10 * 1024 * 1024\<close> bytes and
  its type is \<^verbatim>\<open>pdf\<close>, \<^verbatim>\<open>doc\<close> or \<^verbatim>\<open>docx\<close>; then it becomes the uploaded file
  and the error is cleared. A larger file is rejected with the size message, whatever its
  type; a file of another type is rejected with the type message. Every rejection sets a
  message and clears the uploaded file. The picker and the drop zone run the same
  validation.
\<close>

theorem file_validation:
  "(uploadedFile (validateAndSetFile f s) = Some f
      \<longleftrightarrow> file_size f \<le> 10 * 1024 * 1024
          \<and> or_empty (fileTypeOf f) \<in> set [str ''pdf'', str ''doc'', str ''docx''])
   \<and> (file_size f \<le> 10 * 1024 * 1024
        \<and> or_empty (fileTypeOf f) \<in> set [str ''pdf'', str ''doc'', str ''docx'']
      \<longrightarrow> validateAndSetFile f s = s\<lparr>uploadedFile := Some f, error := None\<rparr>)
   \<and> (file_size f > 10 * 1024 * 1024
      \<longrightarrow> validateAndSetFile f s
          = s\<lparr>error := Some (str ''File size must be less than 10MB''), uploadedFile := None\<rparr>)
   \<and> (file_size f \<le> 10 * 1024 * 1024
        \<and> or_empty (fileTypeOf f) \<notin> set [str ''pdf'', str ''doc'', str ''docx'']
      \<longrightarrow> validateAndSetFile f s
          = s\<lparr>error := Some (str ''Only PDF, DOC, or DOCX files are allowed''),
              uploadedFile := None\<rparr>)
   \<and> handleFileChange (Some f) s = validateAndSetFile f s
   \<and> handleDrop (Some f) s = validateAndSetFile f (s\<lparr>isDragging := False\<rparr>)
   \<and> uploadedFile (handleDrop (Some f) s) = uploadedFile (handleFileChange (Some f) s)
   \<and> error (handleDrop (Some f) s) = error (handleFileChange (Some f) s)"
  by (simp add: validateAndSetFile_def handleFileChange_def handleDrop_def)

lemma example_types:
  "or_empty (fileTypeOf cv) = str ''pdf''"
  "or_empty (fileTypeOf oversized) = str ''pdf''"
  "or_empty (fileTypeOf picture) = str ''png''"
proof -
  have ascii: "list_all (\<lambda>c. c < 0x80) (str ''CV.PDF'')"
    "list_all (\<lambda>c. c < 0x80) (str ''scan.pdf'')" "list_all (\<lambda>c. c < 0x80) (str ''photo.png'')"
    by (simp_all add: str_def)
  show "or_empty (fileTypeOf cv) = str ''pdf''"
    "or_empty (fileTypeOf oversized) = str ''pdf''"
    "or_empty (fileTypeOf picture) = str ''png''"
    by (simp_all add: or_empty_def fileTypeOf_def pop_def toLowerCase_ascii [OF ascii(1)]
        toLowerCase_ascii [OF ascii(2)] toLowerCase_ascii [OF ascii(3)]
        cv_def oversized_def picture_def)
      (simp_all add: str_def ascii_lower_def)
qed

theorem file_validation_witness:
  "uploadedFile (handleFileChange (Some cv) initial) = Some cv
   \<and> uploadedFile (handleDrop (Some cv) initial) = Some cv
   \<and> validateAndSetFile oversized (handleDrop (Some cv) initial)
       = (handleDrop (Some cv) initial)
           \<lparr>error := Some (str ''File size must be less than 10MB''), uploadedFile := None\<rparr>
   \<and> validateAndSetFile picture (handleDrop (Some cv) initial)
       = (handleDrop (Some cv) initial)
           \<lparr>error := Some (str ''Only PDF, DOC, or DOCX files are allowed''),
             uploadedFile := None\<rparr>"
proof -
  have sizes: "file_size cv \<le> 10 * 1024 * 1024" "file_size oversized > 10 * 1024 * 1024"
    "file_size picture \<le> 10 * 1024 * 1024"
    by (simp_all add: cv_def oversized_def picture_def)
  have types: "or_empty (fileTypeOf cv) \<in> set [str ''pdf'', str ''doc'', str ''docx'']"
    "or_empty (fileTypeOf picture) \<notin> set [str ''pdf'', str ''doc'', str ''docx'']"
    by (simp_all add: example_types) (simp add: str_def)
  from file_validation [of cv initial] file_validation [of cv "initial\<lparr>isDragging := False\<rparr>"]
    file_validation [of oversized "handleDrop (Some cv) initial"]
    file_validation [of picture "handleDrop (Some cv) initial"]
  show ?thesis using sizes types by simp
qed

subsection \<open>Submission\<close>

lemma unescaped_not_surrogate: "unescaped c \<Longrightarrow> \<not> isLead c \<and> \<not> isTrail c"
  unfolding unescaped_def isLead_def isTrail_def str_def
  by (auto; unat_arith)

lemma encodeURIComponent_None_iff: "encodeURIComponent s = None \<longleftrightarrow> \<not> isWellFormed s"
proof (induction s rule: encodeURIComponent.induct)
  case 1
  show ?case by simp
next
  case (2 c cs)
  show ?case
  proof (cases "unescaped c")
    case True
    with 2 unescaped_not_surrogate [OF True] show ?thesis by simp
  next
    case False
    show ?thesis
    proof (cases "isTrail c")
      case True
      with False show ?thesis by simp
    next
      case nt: False
      show ?thesis
      proof (cases "isLead c")
        case True
        with False nt 2 show ?thesis by (cases cs) auto
      next
        case False
        with \<open>\<not> unescaped c\<close> nt 2 show ?thesis by simp
      qed
    qed
  qed
qed

text \<open>What passing the validation means.\<close>

lemma validateForm_passes:
  "validateForm fd = Inr () \<longleftrightarrow>
     includes_unit (fd email) 0x40 \<and> list_all (\<lambda>field. fd field \<noteq> []) requiredFields"
  by (auto simp: validateForm_def Let_def list_all_iff filter_empty_conv)

lemma applicant_valid: "validateForm (formData applicant) = Inr ()"
  by (simp add: applicant_def handleInputChange_def initial_def validateForm_def
      requiredFields_def includes_unit_def str_def)

lemma applicant_idle: "\<not> isSubmitting applicant"
  by (simp add: applicant_def handleInputChange_def initial_def)


lemma begin_valid:
  assumes "validateForm (formData s) = Inr ()" and "\<not> isSubmitting s"
  shows "handleSubmit_begin draw s
    = Awaiting (s\<lparr>isSubmitting := True, error := None,
                  requests := requests s @ [newContact (formData s) draw]\<rparr>) (formData s email)"
  using assms by (simp add: handleSubmit_begin_def handleSubmit_start_def)

lemma on_error_frame:
  "isSubmitting (on_error t s) = isSubmitting s"
  "requests (on_error t s) = requests s"
  "location_href (on_error t s) = location_href s"
  "formData (on_error t s) = formData s"
  "uploadedFile (on_error t s) = uploadedFile s"
  by (cases t; simp add: on_error_def)+

lemma begin_invalid:
  assumes "validateForm (formData s) = Inl (Error m)" and "\<not> isSubmitting s"
  shows "handleSubmit_begin draw s = Returned (s\<lparr>error := Some m\<rparr>)"
proof -
  have "s\<lparr>isSubmitting := False, error := Some m\<rparr> = s\<lparr>error := Some m\<rparr>"
    using assms(2) by (cases s) simp
  then show ?thesis
    using assms by (simp add: handleSubmit_begin_def handleSubmit_start_def on_error_def cleanup_def)
qed

lemma resume_requests: "requests (handleSubmit_resume parse e result s) = requests s"
  by (simp add: handleSubmit_resume_def cleanup_def on_error_frame
      split: outcome.split option.split)

lemma resume_latch: "\<not> isSubmitting (handleSubmit_resume parse e result s)"
  by (simp add: handleSubmit_resume_def cleanup_def split: outcome.split option.split)

lemma step_in_flight:
  "isSubmitting s \<Longrightarrow> isSubmitting (step s ev) \<and> requests (step s ev) = requests s"
  by (cases ev)
    (simp_all add: handleInputChange_def handleFileChange_def handleDrop_def
      validateAndSetFile_def handleDragEnter_def handleDragLeave_def handleDragOver_def
      removeFile_def handleSubmit_begin_def handleSubmit_start_def split: option.split)

lemma steps_in_flight:
  "isSubmitting s \<Longrightarrow> isSubmitting (foldl step s evs) \<and> requests (foldl step s evs) = requests s"
proof (induction evs arbitrary: s)
  case Nil
  then show ?case by simp
next
  case (Cons ev evs)
  from step_in_flight [OF Cons.prems, of ev]
  have "isSubmitting (step s ev)" and same: "requests (step s ev) = requests s" by simp_all
  from Cons.IH [OF this(1)] same show ?case by simp
qed

text \<open>
  What a submit of a valid form does, from a state that is not already submitting: it
  makes exactly one \<^verbatim>\<open>createContact\<close> call, whatever the call's result, with the
  email as key, the first name, the last name, the hours, the amount derived from the
  hours and the generated reference number as attributes, and the list \<open>[7]\<close>; with the
  hours \<^verbatim>\<open>20\<close> the amount is \<^verbatim>\<open>\<pounds>330\<close>. When the call resolves and the email has
  no unpaired surrogate, the browser goes to the confirmation address followed by the
  encoded email, and no error is shown.
\<close>

lemma valid_submission:
  "validateForm (formData s) = Inr () \<and> \<not> isSubmitting s \<longrightarrow>
     requests (handleSubmit parse draw result s)
       = requests s @
         [\<lparr>contact_email = formData s email,
           contact_attributes =
             \<lparr>FIRSTNAME = formData s firstName,
              LASTNAME = formData s lastName,
              HOURS = formData s hoursPerWeek,
              AMOUNT = getAmountFromHours (formData s hoursPerWeek),
              UNIQUE = generateReferenceNumber draw\<rparr>,
           listIds = [7]\<rparr>]
     \<and> (formData s hoursPerWeek = str ''20'' \<longrightarrow>
          AMOUNT (contact_attributes (last (requests (handleSubmit parse draw result s))))
            = Str (pound # str ''330''))
     \<and> (isWellFormed (formData s email) \<longrightarrow>
          encodeURIComponent (formData s email) \<noteq> None
          \<and> location_href (handleSubmit parse draw Resolved s)
             = Some (confirmation_url @ the (encodeURIComponent (formData s email)))
          \<and> error (handleSubmit parse draw Resolved s) = None)"
proof (intro impI, elim conjE)
  assume valid: "validateForm (formData s) = Inr ()" and idle: "\<not> isSubmitting s"
  note start = begin_valid [OF valid idle, of draw]
  have calls: "requests (handleSubmit parse draw result s)
      = requests s @ [newContact (formData s) draw]" for result
    by (simp add: handleSubmit_def start resume_requests)
  have contact: "newContact (formData s) draw
      = \<lparr>contact_email = formData s email,
         contact_attributes =
           \<lparr>FIRSTNAME = formData s firstName,
            LASTNAME = formData s lastName,
            HOURS = formData s hoursPerWeek,
            AMOUNT = getAmountFromHours (formData s hoursPerWeek),
            UNIQUE = generateReferenceNumber draw\<rparr>,
         listIds = [7]\<rparr>"
    by (simp add: newContact_def)
  have twenty: "getAmountFromHours (str ''20'') = Str (pound # str ''330'')"
    by (simp add: getAmountFromHours_def get_property_def truthy_def amountMap_def str_def)
  have amount: "AMOUNT (contact_attributes (last (requests (handleSubmit parse draw result s))))
      = Str (pound # str ''330'')" if "formData s hoursPerWeek = str ''20''"
    using that twenty by (simp add: calls contact)
  have nav: "encodeURIComponent (formData s email) \<noteq> None
      \<and> location_href (handleSubmit parse draw Resolved s)
         = Some (confirmation_url @ the (encodeURIComponent (formData s email)))
      \<and> error (handleSubmit parse draw Resolved s) = None"
    if wf: "isWellFormed (formData s email)"
  proof -
    from wf obtain q where q: "encodeURIComponent (formData s email) = Some q"
      using encodeURIComponent_None_iff [of "formData s email"] by auto
    then show ?thesis
      by (simp add: handleSubmit_def start handleSubmit_resume_def cleanup_def)
  qed
  show "requests (handleSubmit parse draw result s)
       = requests s @
         [\<lparr>contact_email = formData s email,
           contact_attributes =
             \<lparr>FIRSTNAME = formData s firstName,
              LASTNAME = formData s lastName,
              HOURS = formData s hoursPerWeek,
              AMOUNT = getAmountFromHours (formData s hoursPerWeek),
              UNIQUE = generateReferenceNumber draw\<rparr>,
           listIds = [7]\<rparr>]
     \<and> (formData s hoursPerWeek = str ''20'' \<longrightarrow>
          AMOUNT (contact_attributes (last (requests (handleSubmit parse draw result s))))
            = Str (pound # str ''330''))
     \<and> (isWellFormed (formData s email) \<longrightarrow>
          encodeURIComponent (formData s email) \<noteq> None
          \<and> location_href (handleSubmit parse draw Resolved s)
             = Some (confirmation_url @ the (encodeURIComponent (formData s email)))
          \<and> error (handleSubmit parse draw Resolved s) = None)"
    using calls [of result] contact amount nav by simp
qed


lemma applicant_fields:
  "formData applicant email = str ''ann@example.org''"
  "formData applicant firstName = str ''Ann''"
  "formData applicant lastName = str ''Lee''"
  "formData applicant hoursPerWeek = str ''20''"
  "requests applicant = []"
  by (simp_all add: applicant_def handleInputChange_def initial_def)

lemma applicant_email_encoded:
  "isWellFormed (str ''ann@example.org'')"
  "encodeURIComponent (str ''ann@example.org'') = Some (str ''ann%40example.org'')"
  by code_simp+

lemma reference_42: "generateReferenceNumber 42 = str ''EDI00042''"
  by code_simp

lemma valid_submission_example:
  "requests (handleSubmit not_json 42 Resolved applicant)
     = [\<lparr>contact_email = str ''ann@example.org'',
         contact_attributes =
           \<lparr>FIRSTNAME = str ''Ann'', LASTNAME = str ''Lee'', HOURS = str ''20'',
            AMOUNT = Str (pound # str ''330''), UNIQUE = str ''EDI00042''\<rparr>,
         listIds = [7]\<rparr>]
   \<and> location_href (handleSubmit not_json 42 Resolved applicant)
     = Some (str ''https://exactdatainput.uk/application-submitted?email=ann%40example.org'')
   \<and> error (handleSubmit not_json 42 Resolved applicant) = None"
proof -
  have twenty: "getAmountFromHours (str ''20'') = Str (pound # str ''330'')"
    by (simp add: getAmountFromHours_def get_property_def truthy_def amountMap_def str_def)
  have url: "confirmation_url @ str ''ann%40example.org''
      = str ''https://exactdatainput.uk/application-submitted?email=ann%40example.org''"
    by (simp add: confirmation_url_def str_def)
  show ?thesis
    using valid_submission [of applicant not_json 42 Resolved]
    by (simp add: applicant_valid applicant_idle applicant_fields applicant_email_encoded
        reference_42 twenty url)
qed

text \<open>
  C1 fails on the code. The form \<open>unpaired\<close> passes validation, its one call is made
  with the attributes the claim lists and resolves, and the browser is not navigated:
  \<^verbatim>\<open>encodeURIComponent\<close> raises for the email, the inner \<^verbatim>\<open>catch\<close> takes the
  exception for an error of the call, and the connectivity message is shown.
\<close>

theorem unpaired_surrogate_submit:
  "validateForm (formData unpaired) = Inr ()
   \<and> \<not> isSubmitting unpaired
   \<and> requests (handleSubmit not_json 42 Resolved unpaired)
       = [\<lparr>contact_email = 0xD83D # str ''@example.org'',
           contact_attributes =
             \<lparr>FIRSTNAME = str ''Ann'', LASTNAME = str ''Lee'', HOURS = str ''20'',
              AMOUNT = Str (pound # str ''330''), UNIQUE = str ''EDI00042''\<rparr>,
           listIds = [7]\<rparr>]
   \<and> location_href (handleSubmit not_json 42 Resolved unpaired) = None
   \<and> error (handleSubmit not_json 42 Resolved unpaired)
       = Some (str ''Unable to connect to the server. Please check your internet connection and try again.'')"
proof -
  have valid: "validateForm (formData unpaired) = Inr ()"
    by (simp add: unpaired_def applicant_def handleInputChange_def initial_def validateForm_def
        requiredFields_def includes_unit_def str_def)
  have idle: "\<not> isSubmitting unpaired"
    by (simp add: unpaired_def applicant_def handleInputChange_def initial_def)
  have mail: "formData unpaired email = 0xD83D # str ''@example.org''"
    by (simp add: unpaired_def handleInputChange_def)
  have fields: "formData unpaired firstName = str ''Ann''"
    "formData unpaired lastName = str ''Lee''" "formData unpaired hoursPerWeek = str ''20''"
    by (simp_all add: unpaired_def applicant_def handleInputChange_def initial_def)
  have twenty: "getAmountFromHours (str ''20'') = Str (pound # str ''330'')"
    by (simp add: getAmountFromHours_def get_property_def truthy_def amountMap_def str_def)
  have none: "encodeURIComponent (0xD83D # str ''@example.org'') = None"
    by code_simp
  have before: "requests unpaired = []" "location_href unpaired = None"
    by (simp_all add: unpaired_def applicant_def handleInputChange_def initial_def)
  show ?thesis
    using valid idle before
    by (simp add: handleSubmit_def begin_valid handleSubmit_resume_def mail none fields twenty
        newContact_def reference_42 apiErrorHandler_def on_error_def cleanup_def
        connectivity_message_def del: encodeURIComponent.simps)
qed

text \<open>
  C2. If a required field is empty and the email contains \<^verbatim>\<open>@\<close>, validation raises
  the error \<^verbatim>\<open>Please fill in all required fields\<close>; a submit from a state that is not
  already submitting ends with that message shown and nothing else changed: no call is
  made and the fields are as they were.
\<close>

theorem required_fields:
  "field \<in> set requiredFields \<and> formData s field = str ''''
     \<and> includes_unit (formData s email) 0x40 \<longrightarrow>
   validateForm (formData s) = Inl (Error (str ''Please fill in all required fields''))
   \<and> (\<not> isSubmitting s \<longrightarrow>
        handleSubmit_begin draw s
          = Returned (s\<lparr>error := Some (str ''Please fill in all required fields'')\<rparr>)
        \<and> handleSubmit parse draw result s
          = s\<lparr>error := Some (str ''Please fill in all required fields'')\<rparr>
        \<and> requests (handleSubmit parse draw result s) = requests s
        \<and> formData (handleSubmit parse draw result s) = formData s)"
proof (intro impI, elim conjE)
  assume req: "field \<in> set requiredFields" and empty: "formData s field = str ''''"
    and at: "includes_unit (formData s email) 0x40"
  from req empty have "field \<in> set (filter (\<lambda>field. formData s field = []) requiredFields)"
    by (simp add: str_def)
  then have "filter (\<lambda>field. formData s field = []) requiredFields \<noteq> []"
    by (metis empty_iff empty_set)
  with at have invalid:
    "validateForm (formData s) = Inl (Error (str ''Please fill in all required fields''))"
    by (simp add: validateForm_def Let_def)
  have "handleSubmit_begin draw s
          = Returned (s\<lparr>error := Some (str ''Please fill in all required fields'')\<rparr>)
        \<and> handleSubmit parse draw result s
          = s\<lparr>error := Some (str ''Please fill in all required fields'')\<rparr>
        \<and> requests (handleSubmit parse draw result s) = requests s
        \<and> formData (handleSubmit parse draw result s) = formData s" if "\<not> isSubmitting s"
    using begin_invalid [OF invalid that, of draw] by (simp add: handleSubmit_def)
  with invalid show "validateForm (formData s) = Inl (Error (str ''Please fill in all required fields''))
   \<and> (\<not> isSubmitting s \<longrightarrow>
        handleSubmit_begin draw s
          = Returned (s\<lparr>error := Some (str ''Please fill in all required fields'')\<rparr>)
        \<and> handleSubmit parse draw result s
          = s\<lparr>error := Some (str ''Please fill in all required fields'')\<rparr>
        \<and> requests (handleSubmit parse draw result s) = requests s
        \<and> formData (handleSubmit parse draw result s) = formData s)"
    by blast
qed




theorem required_fields_witness:
  "validateForm (formData nameless) = Inl (Error (str ''Please fill in all required fields''))
   \<and> error (handleSubmit not_json 42 Resolved nameless)
       = Some (str ''Please fill in all required fields'')
   \<and> requests (handleSubmit not_json 42 Resolved nameless) = []
   \<and> formData (handleSubmit not_json 42 Resolved nameless) = formData nameless"
proof -
  have "firstName \<in> set requiredFields"
    by (simp add: requiredFields_def)
  moreover have "formData nameless firstName = str ''''"
    by (simp add: nameless_def handleInputChange_def)
  moreover have "includes_unit (formData nameless email) 0x40"
    by (simp add: nameless_def applicant_def handleInputChange_def includes_unit_def str_def)
  moreover have "\<not> isSubmitting nameless" and "requests nameless = []"
    by (simp_all add: nameless_def applicant_def handleInputChange_def initial_def)
  ultimately show ?thesis
    using required_fields [of firstName nameless 42 not_json Resolved] by simp
qed

text \<open>
  C3. If the email does not contain \<^verbatim>\<open>@\<close>, validation raises the error
  \<^verbatim>\<open>Please enter a valid email address\<close>, whatever the other fields hold (the
  required fields may be empty too); a submit from a state that is not already submitting
  ends with that message shown and nothing else changed, so no call is made.
\<close>

theorem email_checked_first:
  "\<not> includes_unit (formData s email) 0x40 \<longrightarrow>
   validateForm (formData s) = Inl (Error (str ''Please enter a valid email address''))
   \<and> (\<not> isSubmitting s \<longrightarrow>
        handleSubmit_begin draw s
          = Returned (s\<lparr>error := Some (str ''Please enter a valid email address'')\<rparr>)
        \<and> handleSubmit parse draw result s
          = s\<lparr>error := Some (str ''Please enter a valid email address'')\<rparr>
        \<and> requests (handleSubmit parse draw result s) = requests s)"
proof
  assume "\<not> includes_unit (formData s email) 0x40"
  then have invalid:
    "validateForm (formData s) = Inl (Error (str ''Please enter a valid email address''))"
    by (simp add: validateForm_def)
  have "handleSubmit_begin draw s
          = Returned (s\<lparr>error := Some (str ''Please enter a valid email address'')\<rparr>)
        \<and> handleSubmit parse draw result s
          = s\<lparr>error := Some (str ''Please enter a valid email address'')\<rparr>
        \<and> requests (handleSubmit parse draw result s) = requests s" if "\<not> isSubmitting s"
    using begin_invalid [OF invalid that, of draw] by (simp add: handleSubmit_def)
  with invalid show "validateForm (formData s) = Inl (Error (str ''Please enter a valid email address''))
   \<and> (\<not> isSubmitting s \<longrightarrow>
        handleSubmit_begin draw s
          = Returned (s\<lparr>error := Some (str ''Please enter a valid email address'')\<rparr>)
        \<and> handleSubmit parse draw result s
          = s\<lparr>error := Some (str ''Please enter a valid email address'')\<rparr>
        \<and> requests (handleSubmit parse draw result s) = requests s)"
    by blast
qed

theorem email_checked_first_witness:
  "formData initial firstName = str ''''
   \<and> validateForm (formData initial) = Inl (Error (str ''Please enter a valid email address''))
   \<and> error (handleSubmit not_json 42 Resolved initial)
       = Some (str ''Please enter a valid email address'')
   \<and> requests (handleSubmit not_json 42 Resolved initial) = []"
proof -
  have "\<not> includes_unit (formData initial email) 0x40"
    by (simp add: initial_def includes_unit_def str_def)
  moreover have "\<not> isSubmitting initial" and "requests initial = []"
    and "formData initial firstName = str ''''"
    by (simp_all add: initial_def)
  ultimately show ?thesis
    using email_checked_first [of initial 42 not_json Resolved] by simp
qed

text \<open>
  C7. When the call is rejected, the message shown is \<^verbatim>\<open>Unable to connect to the
  server. Please check your internet connection and try again.\<close> if the error carries no
  response text (or an empty one), and the \<^verbatim>\<open>message\<close> of the parsed response text
  if there is one. Either way the latch is cleared, the fields and the uploaded file are
  kept, and no further call is made: the whole submit has made exactly one.
\<close>

theorem remote_failure:
  "error (handleSubmit_resume parse e (Rejected None) s)
     = Some (str ''Unable to connect to the server. Please check your internet connection and try again.'')
   \<and> error (handleSubmit_resume parse e (Rejected (Some (str ''''))) s)
     = Some (str ''Unable to connect to the server. Please check your internet connection and try again.'')
   \<and> (text \<noteq> str '''' \<and> (parse text = Message_string m \<or> parse text = Message_other m) \<longrightarrow>
        error (handleSubmit_resume parse e (Rejected (Some text)) s) = Some m)
   \<and> \<not> isSubmitting (handleSubmit_resume parse e (Rejected body) s)
   \<and> requests (handleSubmit_resume parse e (Rejected body) s) = requests s
   \<and> location_href (handleSubmit_resume parse e (Rejected body) s) = location_href s
   \<and> formData (handleSubmit_resume parse e (Rejected body) s) = formData s
   \<and> uploadedFile (handleSubmit_resume parse e (Rejected body) s) = uploadedFile s
   \<and> (validateForm (formData s) = Inr () \<and> \<not> isSubmitting s \<longrightarrow>
        requests (handleSubmit parse draw (Rejected body) s)
          = requests s @ [newContact (formData s) draw]
        \<and> \<not> isSubmitting (handleSubmit parse draw (Rejected body) s)
        \<and> formData (handleSubmit parse draw (Rejected body) s) = formData s)"
proof -
  have shape: "handleSubmit_resume parse e (Rejected b) s
      = cleanup (on_error (apiErrorHandler parse b) s)" for b e s
    by (simp add: handleSubmit_resume_def)
  have whole: "requests (handleSubmit parse draw (Rejected body) s)
          = requests s @ [newContact (formData s) draw]
        \<and> \<not> isSubmitting (handleSubmit parse draw (Rejected body) s)
        \<and> formData (handleSubmit parse draw (Rejected body) s) = formData s"
    if "validateForm (formData s) = Inr ()" and "\<not> isSubmitting s"
    using begin_valid [OF that, of draw]
    by (simp add: handleSubmit_def shape cleanup_def on_error_frame)
  have "error (handleSubmit_resume parse e (Rejected None) s)
     = Some (str ''Unable to connect to the server. Please check your internet connection and try again.'')"
    by (simp add: shape apiErrorHandler_def on_error_def cleanup_def connectivity_message_def)
  moreover have "error (handleSubmit_resume parse e (Rejected (Some (str ''''))) s)
     = Some (str ''Unable to connect to the server. Please check your internet connection and try again.'')"
    by (simp add: shape apiErrorHandler_def on_error_def cleanup_def connectivity_message_def
        str_def)
  moreover have "error (handleSubmit_resume parse e (Rejected (Some text)) s) = Some m"
    if "text \<noteq> str ''''" and "parse text = Message_string m \<or> parse text = Message_other m"
    using that by (auto simp: shape apiErrorHandler_def on_error_def cleanup_def str_def)
  moreover have "\<not> isSubmitting (handleSubmit_resume parse e (Rejected body) s)"
    and "requests (handleSubmit_resume parse e (Rejected body) s) = requests s"
    and "location_href (handleSubmit_resume parse e (Rejected body) s) = location_href s"
    and "formData (handleSubmit_resume parse e (Rejected body) s) = formData s"
    and "uploadedFile (handleSubmit_resume parse e (Rejected body) s) = uploadedFile s"
    by (simp_all add: shape cleanup_def on_error_frame)
  ultimately show ?thesis using whole by blast
qed

theorem remote_failure_witness:
  "error (handleSubmit sample_parse 42 (Rejected (Some error_body)) applicant)
     = Some (str ''Contact already exist'')
   \<and> error (handleSubmit sample_parse 42 (Rejected None) applicant)
     = Some (str ''Unable to connect to the server. Please check your internet connection and try again.'')
   \<and> length (requests (handleSubmit sample_parse 42 (Rejected None) applicant)) = 1
   \<and> \<not> isSubmitting (handleSubmit sample_parse 42 (Rejected None) applicant)"
proof -
  let ?waiting = "applicant\<lparr>isSubmitting := True, error := None,
      requests := requests applicant @ [newContact (formData applicant) 42]\<rparr>"
  have nonempty: "error_body \<noteq> str ''''"
    by (simp add: error_body_def str_def)
  have parsed: "sample_parse error_body = Message_string (str ''Contact already exist'')
      \<or> sample_parse error_body = Message_other (str ''Contact already exist'')"
    by (simp add: sample_parse_def)
  have whole: "handleSubmit sample_parse 42 result applicant
      = handleSubmit_resume sample_parse (formData applicant email) result ?waiting" for result
    by (simp add: handleSubmit_def begin_valid [OF applicant_valid applicant_idle])
  from remote_failure [of sample_parse "formData applicant email" ?waiting error_body
      "str ''Contact already exist''" None 42] nonempty parsed
  have "error (handleSubmit_resume sample_parse (formData applicant email)
      (Rejected (Some error_body)) ?waiting) = Some (str ''Contact already exist'')"
    and "error (handleSubmit_resume sample_parse (formData applicant email) (Rejected None)
      ?waiting)
     = Some (str ''Unable to connect to the server. Please check your internet connection and try again.'')"
    by blast+
  moreover from remote_failure [of sample_parse "formData applicant email" applicant error_body
      "str ''Contact already exist''" None 42] applicant_valid applicant_idle
  have "requests (handleSubmit sample_parse 42 (Rejected None) applicant)
      = requests applicant @ [newContact (formData applicant) 42]"
    and "\<not> isSubmitting (handleSubmit sample_parse 42 (Rejected None) applicant)"
    by blast+
  ultimately show ?thesis by (simp add: whole applicant_fields)
qed

text \<open>
  The other response texts, which the claim does not speak of: a text that does not parse
  shows the message of the parser's error, and a parsed text without a \<^verbatim>\<open>message\<close>
  shows the empty message.
\<close>

lemma other_response_texts:
  "text \<noteq> str '''' \<Longrightarrow> parse text = Throws m
    \<Longrightarrow> error (handleSubmit_resume parse e (Rejected (Some text)) s) = Some m"
  "text \<noteq> str '''' \<Longrightarrow> parse text = Message_undefined
    \<Longrightarrow> error (handleSubmit_resume parse e (Rejected (Some text)) s) = Some (str '''')"
  "error (handleSubmit_resume sample_parse e (Rejected (Some (str ''{}''))) s) = Some (str '''')"
  by (simp_all add: handleSubmit_resume_def apiErrorHandler_def on_error_def cleanup_def
      sample_parse_def error_body_def str_def)

text \<open>
  What the latch gives when a render separates the events: while \<^verbatim>\<open>isSubmitting\<close> is
  rendered as set, a submit returns at once and leaves the state as it is, and no sequence
  of such events issues a call or clears the latch; the latch is cleared when the call
  settles, whatever its result, and after every submit that started with the latch clear.
\<close>

lemma latch_after_render:
  "(isSubmitting view \<longrightarrow> handleSubmit_start view draw s = Returned s)
   \<and> (isSubmitting s \<longrightarrow>
        handleSubmit_begin draw s = Returned s
        \<and> handleSubmit parse draw result s = s
        \<and> step s (Submit draw) = s
        \<and> isSubmitting (foldl step s evs)
        \<and> requests (foldl step s evs) = requests s)
   \<and> (handleSubmit_begin draw s = Awaiting s1 e \<longrightarrow>
        isSubmitting s1
        \<and> requests s1 = requests s @ [newContact (formData s) draw]
        \<and> requests (handleSubmit_resume parse e result (foldl step s1 evs))
           = requests s @ [newContact (formData s) draw])
   \<and> \<not> isSubmitting (handleSubmit_resume parse e result s)
   \<and> (\<not> isSubmitting s \<longrightarrow> \<not> isSubmitting (handleSubmit parse draw result s))"
proof -
  have latched: "handleSubmit_begin draw s = Returned s
      \<and> handleSubmit parse draw result s = s
      \<and> step s (Submit draw) = s
      \<and> isSubmitting (foldl step s evs)
      \<and> requests (foldl step s evs) = requests s" if "isSubmitting s"
    using that steps_in_flight [OF that, of evs]
    by (simp add: handleSubmit_begin_def handleSubmit_start_def handleSubmit_def)
  have waiting: "isSubmitting s1
      \<and> requests s1 = requests s @ [newContact (formData s) draw]
      \<and> requests (handleSubmit_resume parse e result (foldl step s1 evs))
         = requests s @ [newContact (formData s) draw]"
    if "handleSubmit_begin draw s = Awaiting s1 e"
  proof -
    from that have s1: "s1 = s\<lparr>isSubmitting := True, error := None,
        requests := requests s @ [newContact (formData s) draw]\<rparr>"
      by (auto simp: handleSubmit_begin_def handleSubmit_start_def Let_def
          split: if_splits sum.splits)
    then have "isSubmitting s1" and "requests s1 = requests s @ [newContact (formData s) draw]"
      by simp_all
    with steps_in_flight [of s1 evs] show ?thesis
      by (simp add: resume_requests)
  qed
  have cleared: "\<not> isSubmitting (handleSubmit parse draw result s)" if idle: "\<not> isSubmitting s"
  proof (cases "validateForm (formData s)")
    case (Inl t)
    with idle show ?thesis
      by (simp add: handleSubmit_def handleSubmit_begin_def handleSubmit_start_def cleanup_def)
  next
    case (Inr u)
    then have "validateForm (formData s) = Inr ()" by simp
    from begin_valid [OF this idle, of draw] show ?thesis
      by (simp add: handleSubmit_def resume_latch)
  qed
  have rendered: "handleSubmit_start view draw s = Returned s" if "isSubmitting view"
    using that by (simp add: handleSubmit_start_def)
  show ?thesis
    using rendered latched waiting cleared resume_latch [of parse e result s] by blast
qed

text \<open>
  C8 fails on the code. The guard of \<^verbatim>\<open>handleSubmit\<close> reads the \<^verbatim>\<open>isSubmitting\<close>
  of the last render, which \<^verbatim>\<open>setIsSubmitting(true)\<close> does not change. Two submits
  dispatched in a row on the filled form, with no render between them, both pass the
  guard: the first sets the latch and issues its call, and the second, handled while that
  call is awaited and the latch is set, issues a second call.
\<close>

theorem double_submit_two_calls:
  "\<not> isSubmitting applicant
   \<and> requests applicant = []
   \<and> isSubmitting (task applicant [Submit 42])
   \<and> length (requests (task applicant [Submit 42])) = 1
   \<and> isSubmitting (task applicant [Submit 42, Submit 42])
   \<and> length (requests (task applicant [Submit 42, Submit 42])) = 2
   \<and> requests (task applicant [Submit 42, Submit 42])
       = [newContact (formData applicant) 42, newContact (formData applicant) 42]"
  using applicant_valid applicant_idle
  by (simp add: task_def handleSubmit_start_def applicant_fields)

subsection \<open>Input changes\<close>

text \<open>
  C9. An input change sets the named field to the new value, keeps every other field,
  the uploaded file and everything else, and clears the error.
\<close>

theorem input_change_frame:
  "formData (handleInputChange name value s) name = value
   \<and> (\<forall>other. other \<noteq> name \<longrightarrow>
        formData (handleInputChange name value s) other = formData s other)
   \<and> uploadedFile (handleInputChange name value s) = uploadedFile s
   \<and> error (handleInputChange name value s) = None
   \<and> isSubmitting (handleInputChange name value s) = isSubmitting s
   \<and> isDragging (handleInputChange name value s) = isDragging s
   \<and> requests (handleInputChange name value s) = requests s
   \<and> location_href (handleInputChange name value s) = location_href s"
  by (simp add: handleInputChange_def)

theorem input_change_frame_witness:
  "formData (handleInputChange lastName (str ''Ray'') applicant) lastName = str ''Ray''
   \<and> formData (handleInputChange lastName (str ''Ray'') applicant) firstName = str ''Ann''
   \<and> error (handleInputChange lastName (str ''Ray'')
        (handleSubmit not_json 42 (Rejected None) applicant)) = None"
proof -
  have "firstName \<noteq> lastName" by simp
  with input_change_frame [of lastName "str ''Ray''" applicant]
    input_change_frame [of lastName "str ''Ray''"
      "handleSubmit not_json 42 (Rejected None) applicant"]
  show ?thesis by (simp add: applicant_fields)
qed

end
